theory Spec2Isabelle
  imports Complex_Main
begin

section \<open>Python values and failures\<close>

text \<open>
  The repository is one Python module, \<^verbatim>\<open>PyAmesp/amesp.py\<close>: a reader and a writer for
  the input transcript of the Amesp engine (\<^verbatim>\<open>*.aip\<close>) and a set of extractors for its
  output transcript (\<^verbatim>\<open>*.aop\<close>).  Every function of the module is embedded below as a
  HOL function of the same name.  A raised exception is a value \<open>Inl e\<close> of the result
  type \<open>py_error + 'a\<close>; statements that run one after the other are chained with
  \<open>rbind\<close>, so the first exception in evaluation order is the one returned.

  Text is a list of 8-bit code points.  Floating-point numbers are idealised as reals:
  the products with the unit factors are exact, rounding is not part of the model.
\<close>

datatype py_error =
  IndexError | ValueError | TypeError | KeyError | StopIteration | AttributeError | OSError

definition rbind :: "py_error + 'a \<Rightarrow> ('a \<Rightarrow> py_error + 'b) \<Rightarrow> py_error + 'b" where
  "rbind m f = (case m of Inl e \<Rightarrow> Inl e | Inr x \<Rightarrow> f x)"

text \<open>A list comprehension whose body may raise: elements are evaluated left to right.\<close>

fun mapM :: "('a \<Rightarrow> py_error + 'b) \<Rightarrow> 'a list \<Rightarrow> py_error + 'b list" where
  "mapM f [] = Inr []"
| "mapM f (x # xs) = rbind (f x) (\<lambda>y. rbind (mapM f xs) (\<lambda>ys. Inr (y # ys)))"

text \<open>\<^verbatim>\<open>xs[i]\<close> for an integer index: negative indices count from the end.\<close>

definition py_index :: "'a list \<Rightarrow> int \<Rightarrow> py_error + 'a" where
  "py_index xs i =
     (if 0 \<le> i \<and> i < int (length xs) then Inr (xs ! nat i)
      else if i < 0 \<and> - int (length xs) \<le> i then Inr (xs ! nat (int (length xs) + i))
      else Inl IndexError)"

subsection \<open>Strings\<close>

abbreviation nl :: char where
  "nl \<equiv> CHR 0x0A"

text \<open>
  Character classes of \<^verbatim>\<open>str.isspace\<close> and of the patterns \<^verbatim>\<open>\s\<close>, \<^verbatim>\<open>\d\<close>, \<^verbatim>\<open>\w\<close>
  on code points below 256.
\<close>

definition is_space :: "char \<Rightarrow> bool" where
  "is_space c = (let n = (of_char c :: int) in
     (9 \<le> n \<and> n \<le> 13) \<or> (28 \<le> n \<and> n \<le> 32) \<or> n = 133 \<or> n = 160)"

definition is_digit :: "char \<Rightarrow> bool" where
  "is_digit c = (let n = (of_char c :: int) in 48 \<le> n \<and> n \<le> 57)"

definition is_word :: "char \<Rightarrow> bool" where
  "is_word c = (let n = (of_char c :: int) in
     (48 \<le> n \<and> n \<le> 57) \<or> (65 \<le> n \<and> n \<le> 90) \<or> n = 95 \<or> (97 \<le> n \<and> n \<le> 122)
     \<or> n = 170 \<or> n = 178 \<or> n = 179 \<or> n = 181 \<or> n = 185 \<or> n = 186
     \<or> (188 \<le> n \<and> n \<le> 190) \<or> (192 \<le> n \<and> n \<le> 214)
     \<or> (216 \<le> n \<and> n \<le> 246) \<or> 248 \<le> n)"

text \<open>\<^verbatim>\<open>s.split(d)\<close> for a one-character separator: always at least one piece.\<close>

fun split_on :: "char \<Rightarrow> string \<Rightarrow> string list" where
  "split_on d [] = [[]]"
| "split_on d (c # cs) =
     (if c = d then [] # split_on d cs
      else (case split_on d cs of [] \<Rightarrow> [[c]] | w # ws \<Rightarrow> (c # w) # ws))"

text \<open>\<^verbatim>\<open>s.split()\<close>: the maximal runs of non-space characters.\<close>

fun split_ws :: "string \<Rightarrow> string list" where
  "split_ws [] = []"
| "split_ws [c] = (if is_space c then [] else [[c]])"
| "split_ws (c # d # ds) =
     (if is_space c then split_ws (d # ds)
      else if is_space d then [c] # split_ws ds
      else (case split_ws (d # ds) of [] \<Rightarrow> [[c]] | w # ws \<Rightarrow> (c # w) # ws))"

text \<open>\<^verbatim>\<open>sep.join(xs)\<close>.\<close>

fun join :: "string \<Rightarrow> string list \<Rightarrow> string" where
  "join sep [] = []"
| "join sep [x] = x"
| "join sep (x # y # ys) = x @ sep @ join sep (y # ys)"

text \<open>\<^verbatim>\<open>p in s\<close> on strings: \<open>p\<close> occurs as a contiguous substring of \<open>s\<close>.\<close>

fun starts_with :: "string \<Rightarrow> string \<Rightarrow> bool" where
  "starts_with [] s = True"
| "starts_with (a # p) [] = False"
| "starts_with (a # p) (c # cs) = (a = c \<and> starts_with p cs)"

fun contains :: "string \<Rightarrow> string \<Rightarrow> bool" where
  "contains p [] = starts_with p []"
| "contains p (c # cs) = (starts_with p (c # cs) \<or> contains p cs)"

text \<open>\<^verbatim>\<open>'%d' % n\<close> for an integer: its decimal digits, after a sign if negative.\<close>

definition digit_char :: "int \<Rightarrow> char" where
  "digit_char n = ''0123456789'' ! nat (n mod 10)"

function show_pos :: "int \<Rightarrow> string" where
  "show_pos n = (if n < 10 then [digit_char n] else show_pos (n div 10) @ [digit_char n])"
  by pat_completeness auto
termination
  by (relation "measure nat") auto

declare show_pos.simps [simp del]

definition show_int :: "int \<Rightarrow> string" where
  "show_int i = (if i < 0 then CHR ''-'' # show_pos (- i) else show_pos i)"

definition show_nat :: "nat \<Rightarrow> string" where
  "show_nat n = show_pos (int n)"

subsection \<open>Regular expressions\<close>

text \<open>
  The patterns of the module use literal characters, the classes \<^verbatim>\<open>\s\<close>, \<^verbatim>\<open>\d\<close>,
  \<^verbatim>\<open>\w\<close> and \<^verbatim>\<open>.\<close>, the greedy repetitions \<^verbatim>\<open>*\<close> and \<^verbatim>\<open>+\<close> of one class, the
  lazy repetition \<^verbatim>\<open>.*?\<close> and the capturing group \<^verbatim>\<open>(.*?)\<close>.  A pattern is the list of
  its items.  \<open>rmatch\<close> is the backtracking matcher of \<^verbatim>\<open>re\<close> anchored at the start of
  its input: a greedy repetition first tries one more character, a lazy one first tries
  the rest of the pattern, and the first alternative that succeeds is the match.  It
  returns the captured groups and the unread rest of the input.
\<close>

datatype cclass = Lit char | Space | Digit | Word | Dot | DotAll

fun in_class :: "cclass \<Rightarrow> char \<Rightarrow> bool" where
  "in_class (Lit d) c = (c = d)"
| "in_class Space c = is_space c"
| "in_class Digit c = is_digit c"
| "in_class Word c = is_word c"
| "in_class Dot c = (c \<noteq> nl)"
| "in_class DotAll c = True"

datatype rx = Chr cclass | Star cclass | Plus cclass | Lazy cclass | Cap cclass

fun rmatch :: "rx list \<Rightarrow> string \<Rightarrow> (string list \<times> string) option" where
  "rmatch [] s = Some ([], s)"
| "rmatch (Chr k # r) [] = None"
| "rmatch (Chr k # r) (c # cs) = (if in_class k c then rmatch r cs else None)"
| "rmatch (Star k # r) [] = rmatch r []"
| "rmatch (Star k # r) (c # cs) =
     (if in_class k c
      then (case rmatch (Star k # r) cs of Some m \<Rightarrow> Some m | None \<Rightarrow> rmatch r (c # cs))
      else rmatch r (c # cs))"
| "rmatch (Plus k # r) [] = None"
| "rmatch (Plus k # r) (c # cs) = (if in_class k c then rmatch (Star k # r) cs else None)"
| "rmatch (Lazy k # r) [] = rmatch r []"
| "rmatch (Lazy k # r) (c # cs) =
     (case rmatch r (c # cs) of Some m \<Rightarrow> Some m
      | None \<Rightarrow> if in_class k c then rmatch (Lazy k # r) cs else None)"
| "rmatch (Cap k # r) [] =
     (case rmatch r [] of Some (caps, rest) \<Rightarrow> Some ([] # caps, rest) | None \<Rightarrow> None)"
| "rmatch (Cap k # r) (c # cs) =
     (case rmatch r (c # cs) of Some (caps, rest) \<Rightarrow> Some ([] # caps, rest)
      | None \<Rightarrow>
         if in_class k c
         then (case rmatch (Cap k # r) cs of
                 Some (g # caps, rest) \<Rightarrow> Some ((c # g) # caps, rest)
               | _ \<Rightarrow> None)
         else None)"

text \<open>
  \<^verbatim>\<open>re.findall(p, s)\<close>: the non-overlapping matches from left to right, each given by
  its groups.  After a match the scan goes on where the match ended; after an empty
  match, and where nothing matches, it moves one character on.
\<close>

function findall :: "rx list \<Rightarrow> string \<Rightarrow> string list list" where
  "findall p s =
     (case rmatch p s of
        Some (caps, rest) \<Rightarrow>
          caps # (if length rest < length s then findall p rest
                  else (case s of [] \<Rightarrow> [] | _ # cs \<Rightarrow> findall p cs))
      | None \<Rightarrow> (case s of [] \<Rightarrow> [] | _ # cs \<Rightarrow> findall p cs))"
  by pat_completeness auto
termination
  by (relation "measure (\<lambda>(p, s). length s)") auto

declare findall.simps [simp del]

text \<open>With one group in the pattern, \<^verbatim>\<open>findall\<close> returns the group of each match.\<close>

definition groups1 :: "string list list \<Rightarrow> string list" where
  "groups1 ms = map (\<lambda>caps. case caps of [] \<Rightarrow> [] | g # _ \<Rightarrow> g) ms"

definition lits :: "string \<Rightarrow> rx list" where
  "lits s = map (\<lambda>c. Chr (Lit c)) s"

section \<open>Library interface\<close>

text \<open>
  The module calls into numpy and ASE.  Their functions are not code of the
  repository; the embedding takes them as the fields of one record, so every theorem
  below holds for whatever the library does.

  \<^item> \<open>to_float\<close>: the conversion of one numeric literal by \<^verbatim>\<open>np.array(..., float)\<close>;
    \<open>None\<close> is the library's \<^verbatim>\<open>ValueError\<close>.
  \<^item> \<open>Atoms\<close>: the constructor \<^verbatim>\<open>Atoms(symbols, positions)\<close>.
  \<^item> \<open>FileIOCalculator_init\<close>: \<^verbatim>\<open>FileIOCalculator.__init__\<close> as the constructor of
    \<^verbatim>\<open>Amesp\<close> calls it for a structure, with the defaults of the other arguments.  It
    returns or raises.
  \<^item> \<open>Hartree\<close>, \<open>Bohr\<close>: the constants of \<^verbatim>\<open>ase.units\<close>.
  \<^item> \<open>io_read_xyz\<close>: \<^verbatim>\<open>io.read(stream, format='xyz')\<close> on the content of the stream.
    It returns a structure or raises; it has no other result.
  \<^item> \<open>io_write_xyz\<close>: the lines that \<^verbatim>\<open>io.write(stream, images, format='xyz')\<close> leaves
    in the stream.
  \<^item> \<open>parse_zmatrix\<close>: \<^verbatim>\<open>ase.io.zmatrix.parse_zmatrix(zmat, defs=coord)\<close>.
  \<^item> \<open>initial_charges_sum\<close>, \<open>initial_magmoms_sum\<close>:
    \<^verbatim>\<open>atoms.get_initial_charges().sum()\<close> and \<^verbatim>\<open>atoms.get_initial_magnetic_moments().sum()\<close>.
\<close>

record 'a ase =
  to_float :: "string \<Rightarrow> real option"
  Atoms :: "string list \<Rightarrow> real list list \<Rightarrow> py_error + 'a"
  FileIOCalculator_init :: "'a \<Rightarrow> py_error + unit"
  Hartree :: real
  Bohr :: real
  io_read_xyz :: "string \<Rightarrow> py_error + 'a"
  io_write_xyz :: "'a list \<Rightarrow> string list"
  parse_zmatrix :: "string option \<Rightarrow> string \<Rightarrow> py_error + 'a"
  initial_charges_sum :: "'a \<Rightarrow> real"
  initial_magmoms_sum :: "'a \<Rightarrow> real"

text \<open>
  \<^verbatim>\<open>np.array(xs, float)\<close> on a list of literals, and on a list of rows of literals: a
  literal that is not numeric and rows of different lengths both raise \<^verbatim>\<open>ValueError\<close>.
\<close>

definition np_array1 :: "(string \<Rightarrow> real option) \<Rightarrow> string list \<Rightarrow> py_error + real list" where
  "np_array1 tf xs = (case those (map tf xs) of None \<Rightarrow> Inl ValueError | Some v \<Rightarrow> Inr v)"

definition np_array2 ::
  "(string \<Rightarrow> real option) \<Rightarrow> string list list \<Rightarrow> py_error + real list list" where
  "np_array2 tf rows =
     (if list_all (\<lambda>r. length r = length (hd rows)) rows
      then mapM (np_array1 tf) rows
      else Inl ValueError)"

text \<open>
  \<^verbatim>\<open>np.array([f.split()[1:] for f in body.split('\n')], float)\<close>, the table of a
  geometry, gradient or force section without its first column.
\<close>

definition rows_array :: "'a ase \<Rightarrow> string \<Rightarrow> py_error + real list list" where
  "rows_array L body = np_array2 (to_float L) (map (\<lambda>f. drop 1 (split_ws f)) (split_on nl body))"

section \<open>Output section extractors\<close>

definition pat_aop_xyz :: "rx list" where
  "pat_aop_xyz = lits ''Current Geometry(angstroms):'' @
     [Chr (Lit nl), Star Space, Chr (Lit nl), Cap DotAll, Chr (Lit nl), Star Space, Chr (Lit nl)]"

definition pat_aop_charge :: "rx list" where
  "pat_aop_charge = [Plus Word] @ lits '' charges:'' @
     [Chr (Lit nl), Star Space, Chr (Lit nl), Cap DotAll, Chr (Lit nl), Star Space] @
     lits ''Sum of '' @ [Plus Word] @ lits '' charges''"

definition pat_aop_spin :: "rx list" where
  "pat_aop_spin = lits ''Spin densities:'' @
     [Chr (Lit nl), Star Space, Chr (Lit nl), Cap DotAll, Chr (Lit nl), Star Space, Chr (Lit nl)]"

definition pat_aop_dipole :: "rx list" where
  "pat_aop_dipole = lits ''Dipole moment ('' @ [Lazy DotAll] @ lits ''):'' @
     [Chr (Lit nl), Star Space] @ lits ''X='' @ [Star Space, Cap DotAll, Star Space] @
     lits ''Y='' @ [Star Space, Cap DotAll, Star Space] @
     lits ''Z='' @ [Star Space, Cap DotAll, Star Space] @ lits ''Tot=''"

text \<open>The energy pattern is compiled without \<^verbatim>\<open>re.S\<close>: its group stops at a newline.\<close>

definition pat_aop_energy :: "rx list" where
  "pat_aop_energy = lits ''ETot ='' @ [Star Space, Cap Dot, Star Space] @ lits ''Ekin''"

definition pat_table :: "string \<Rightarrow> rx list" where
  "pat_table banner = lits banner @ lits '' ('' @ [Lazy DotAll] @ lits ''):'' @
     [Chr (Lit nl), Star Space, Chr (Lit (CHR ''x'')), Star Space, Chr (Lit (CHR ''y'')),
      Star Space, Chr (Lit (CHR ''z'')), Chr (Lit nl), Cap DotAll, Chr (Lit nl), Star Space,
      Chr (Lit nl)]"

definition pat_aop_gradient :: "rx list" where
  "pat_aop_gradient = pat_table ''Cartesian Gradient''"

definition pat_aop_force :: "rx list" where
  "pat_aop_force = pat_table ''Cartesian Force''"

definition parse_aop_xyz ::
  "'a ase \<Rightarrow> string \<Rightarrow> py_error + (string list list \<times> real list list list)" where
  "parse_aop_xyz L txt =
     (let xyz_array = groups1 (findall pat_aop_xyz txt) in
      rbind (mapM (\<lambda>xyz. mapM (\<lambda>x. py_index (split_ws x) 0) (split_on nl xyz)) xyz_array)
        (\<lambda>element.
      rbind (mapM (rows_array L) xyz_array)
        (\<lambda>position. Inr (element, position))))"

text \<open>
  The per-atom column of a charge or spin section:
  \<^verbatim>\<open>np.array([c.split()[-1] for c in body.split('\n')], dtype=float)\<close>.
\<close>

definition last_column :: "'a ase \<Rightarrow> string \<Rightarrow> py_error + real list" where
  "last_column L body =
     rbind (mapM (\<lambda>c. py_index (split_ws c) (- 1)) (split_on nl body)) (np_array1 (to_float L))"

definition parse_aop_charge ::
  "'a ase \<Rightarrow> string \<Rightarrow> nat \<Rightarrow> py_error + real list option list" where
  "parse_aop_charge L txt n =
     rbind (mapM (last_column L) (groups1 (findall pat_aop_charge txt)))
       (\<lambda>charge_array.
          let charge_array = take (n + 1) charge_array in
          Inr (if length charge_array = 0 then replicate n None else map Some charge_array))"

definition parse_aop_spin ::
  "'a ase \<Rightarrow> string \<Rightarrow> nat \<Rightarrow> py_error + real list option list" where
  "parse_aop_spin L txt n =
     rbind (mapM (last_column L) (groups1 (findall pat_aop_spin txt)))
       (\<lambda>spin_array.
          let spin_array = take (n + 1) spin_array in
          Inr (if length spin_array = 0 then replicate n None else map Some spin_array))"

definition parse_aop_dipole ::
  "'a ase \<Rightarrow> string \<Rightarrow> nat \<Rightarrow> py_error + real list list" where
  "parse_aop_dipole L txt n =
     rbind (mapM (\<lambda>d. rbind (np_array1 (to_float L) d) (\<lambda>v. Inr (map (\<lambda>x. x * Bohr L) v)))
              (findall pat_aop_dipole txt))
       (\<lambda>dipole. Inr (take (n + 1) dipole))"

definition parse_aop_energy :: "'a ase \<Rightarrow> string \<Rightarrow> nat \<Rightarrow> py_error + real list" where
  "parse_aop_energy L txt n =
     rbind (np_array1 (to_float L) (groups1 (findall pat_aop_energy txt)))
       (\<lambda>energy. Inr (take (n + 1) (map (\<lambda>x. x * Hartree L) energy)))"

definition parse_aop_gradient ::
  "'a ase \<Rightarrow> string \<Rightarrow> nat \<Rightarrow> py_error + real list list option list" where
  "parse_aop_gradient L txt n =
     (let force_data = groups1 (findall pat_aop_gradient txt) in
      if length force_data > 0
      then rbind (mapM (\<lambda>force. rbind (rows_array L force)
                          (\<lambda>m. Inr (map (map (\<lambda>x. x * Hartree L / Bohr L * (- 1))) m)))
                    force_data)
             (\<lambda>force_data. Inr (map Some (take (n + 1) force_data)))
      else Inr (replicate n None))"

definition parse_aop_force :: "'a ase \<Rightarrow> string \<Rightarrow> py_error + real list list option" where
  "parse_aop_force L txt =
     (case groups1 (findall pat_aop_force txt) of
        force # _ \<Rightarrow>
          rbind (rows_array L force)
            (\<lambda>m. Inr (Some (map (map (\<lambda>x. x * Hartree L / Bohr L)) m)))
      | [] \<Rightarrow> Inr None)"

section \<open>Trajectory assembler\<close>

text \<open>
  The \<^verbatim>\<open>results\<close> dictionary that \<open>iread_aop\<close> attaches to an image, and the image:
  the structure with its calculator's results.
\<close>

record results =
  r_energy :: real
  r_forces :: "real list list option"
  r_dipole :: "real list"
  r_charges :: "real list option"
  r_magmoms :: "real list option"

record 'a image =
  atoms :: 'a
  calc_results :: results

text \<open>
  \<^verbatim>\<open>Amesp(atoms=atoms)\<close>: the constructor of the calculator class passes its arguments
  on to the constructor of the library's base class.
\<close>

definition Amesp_init :: "'a ase \<Rightarrow> 'a \<Rightarrow> py_error + unit" where
  "Amesp_init L a = FileIOCalculator_init L a"

text \<open>
  The body of the loop \<^verbatim>\<open>for i in range(nimage)\<close>: the structure is built first, then
  the five sequences are indexed in the order of the source, then the calculator that
  carries the results is constructed.  \<open>element\<close> and \<open>position\<close> have \<open>nimage\<close>
  entries each, so their own indexing cannot fail.
\<close>

definition build_image ::
  "'a ase \<Rightarrow> string list list \<Rightarrow> real list list list \<Rightarrow> real list \<Rightarrow>
   real list list option list \<Rightarrow> real list list \<Rightarrow> real list option list \<Rightarrow>
   real list option list \<Rightarrow> nat \<Rightarrow> py_error + 'a image" where
  "build_image L element position energy force dipole charge magmom i =
     rbind (Atoms L (element ! i) (position ! i)) (\<lambda>a.
     rbind (py_index energy (int i)) (\<lambda>e.
     rbind (py_index force (int i)) (\<lambda>f.
     rbind (py_index dipole (int i)) (\<lambda>d.
     rbind (py_index charge (int i)) (\<lambda>c.
     rbind (py_index magmom (int i)) (\<lambda>m.
     rbind (Amesp_init L a) (\<lambda>amesp.
     Inr \<lparr>atoms = a,
          calc_results = \<lparr>r_energy = e, r_forces = f, r_dipole = d,
                          r_charges = c, r_magmoms = m\<rparr>\<rparr>)))))))"

definition iread_aop :: "'a ase \<Rightarrow> string \<Rightarrow> py_error + 'a image list" where
  "iread_aop L txt =
     rbind (parse_aop_xyz L txt) (\<lambda>(element, position).
     let nimage = length element in
     rbind (parse_aop_charge L txt nimage) (\<lambda>charge.
     rbind (parse_aop_spin L txt nimage) (\<lambda>magmom.
     rbind (parse_aop_dipole L txt nimage) (\<lambda>dipole.
     rbind (parse_aop_energy L txt nimage) (\<lambda>energy.
     rbind (parse_aop_gradient L txt nimage) (\<lambda>force.
     mapM (build_image L element position energy force dipole charge magmom)
       [0..<nimage]))))))"

definition read_aop :: "'a ase \<Rightarrow> string \<Rightarrow> int \<Rightarrow> py_error + 'a image" where
  "read_aop L txt index = rbind (iread_aop L txt) (\<lambda>images. py_index images index)"

text \<open>
  \<^verbatim>\<open>Amesp.read_results\<close>: the calculator's own results after a run, keyed
  \<^verbatim>\<open>charge\<close>, \<^verbatim>\<open>magmoms\<close>, \<^verbatim>\<open>dipole\<close>, \<^verbatim>\<open>energy\<close>, \<^verbatim>\<open>forces\<close> and
  assigned in this order.
\<close>

record amesp_results =
  c_charge :: "real list option"
  c_magmoms :: "real list option"
  c_dipole :: "real list"
  c_energy :: real
  c_forces :: "real list list option"

definition read_results :: "'a ase \<Rightarrow> string \<Rightarrow> py_error + amesp_results" where
  "read_results L txt =
     rbind (parse_aop_xyz L txt) (\<lambda>(element, position).
     let nimage = length element in
     rbind (rbind (parse_aop_charge L txt nimage) (\<lambda>xs. py_index xs (- 1))) (\<lambda>charge.
     rbind (rbind (parse_aop_spin L txt nimage) (\<lambda>xs. py_index xs (- 1))) (\<lambda>magmom.
     rbind (rbind (parse_aop_dipole L txt nimage) (\<lambda>xs. py_index xs (- 1))) (\<lambda>dipole.
     rbind (rbind (parse_aop_energy L txt nimage) (\<lambda>xs. py_index xs (- 1))) (\<lambda>energy.
     rbind (parse_aop_force L txt) (\<lambda>force.
     Inr \<lparr>c_charge = charge, c_magmoms = magmom, c_dipole = dipole,
          c_energy = energy, c_forces = force\<rparr>))))))"

section \<open>Input reader\<close>

definition pat_geom :: "string \<Rightarrow> rx list" where
  "pat_geom tag = lits tag @
     [Plus Space, Plus Digit, Plus Space, Plus Digit, Star Space, Chr (Lit nl), Cap DotAll,
      Chr (Lit nl), Star Space] @ lits ''end''"

definition pat_xyz :: "rx list" where
  "pat_xyz = pat_geom ''>xyz''"

definition pat_zmat :: "rx list" where
  "pat_zmat = pat_geom ''>zmat''"

definition pat_coord :: "rx list" where
  "pat_coord = lits ''>coord'' @
     [Star Space, Chr (Lit nl), Cap DotAll, Chr (Lit nl), Star Space] @ lits ''end''"

text \<open>\<^verbatim>\<open>StringIO(v)\<close>: the content of the new stream; \<^verbatim>\<open>StringIO(None)\<close> is empty.\<close>

fun StringIO :: "string option \<Rightarrow> string" where
  "StringIO None = []"
| "StringIO (Some s) = s"

definition parse_xyz :: "'a ase \<Rightarrow> string \<Rightarrow> py_error + 'a" where
  "parse_xyz L txt =
     (let xyz_text =
        (case groups1 (findall pat_xyz txt) of
           [x] \<Rightarrow> Some (show_nat (length (split_on nl x)) @ [nl, nl] @ x)
         | _ \<Rightarrow> None)
      in io_read_xyz L (StringIO xyz_text))"

definition parse_zmat :: "'a ase \<Rightarrow> string \<Rightarrow> py_error + 'a" where
  "parse_zmat L txt =
     (let coord =
        (case groups1 (findall pat_coord txt) of
           [c0] \<Rightarrow> join [nl] (map (\<lambda>c. join ''='' (take 2 (split_ws c))) (split_on nl c0))
         | _ \<Rightarrow> []);
          zmat = (case groups1 (findall pat_zmat txt) of [z] \<Rightarrow> Some z | _ \<Rightarrow> None)
      in parse_zmatrix L zmat coord)"

definition read_aip :: "'a ase \<Rightarrow> string \<Rightarrow> py_error + 'a option" where
  "read_aip L txt =
     (if contains ''>xyz'' txt then rbind (parse_xyz L txt) (\<lambda>a. Inr (Some a))
      else if contains ''>zmat'' txt then rbind (parse_zmat L txt) (\<lambda>a. Inr (Some a))
      else Inr None)"

section \<open>Input writer\<close>

subsection \<open>Parameter values and the object store\<close>

text \<open>
  A parameter value is text, a real, a boolean, an integer, \<^verbatim>\<open>None\<close>, a list or a
  mapping; a mapping is the list of its items in insertion order, with text keys, each
  key once.

  The helpers of the writer remove keys from the mapping they are handed
  (\<^verbatim>\<open>kw.pop\<close>), so mappings that a caller can hold are objects of a store: a store is
  the list of its objects, an address is an index into it, a new object is appended.
  The values inside an object are trees; \<^verbatim>\<open>deepcopy\<close> of an object is then a new
  object with the same items.
\<close>

datatype pyval =
  VStr string | VFloat real | VBool bool | VInt int | VNone
  | VList "pyval list" | VDict "(string \<times> pyval) list"

type_synonym pydict = "(string \<times> pyval) list"
type_synonym store = "pydict list"

definition dict_del :: "string \<Rightarrow> pydict \<Rightarrow> pydict" where
  "dict_del k d = filter (\<lambda>kv. fst kv \<noteq> k) d"

text \<open>\<^verbatim>\<open>kw.pop(k)\<close> on the object at \<open>a\<close>, once \<^verbatim>\<open>k in kw\<close> is known.\<close>

definition pop_key :: "store \<Rightarrow> nat \<Rightarrow> string \<Rightarrow> store" where
  "pop_key h a k = h[a := dict_del k (h ! a)]"

definition alloc :: "pydict \<Rightarrow> store \<Rightarrow> nat \<times> store" where
  "alloc d h = (length h, h @ [d])"

definition deepcopy :: "store \<Rightarrow> nat \<Rightarrow> nat \<times> store" where
  "deepcopy h a = alloc (h ! a) h"

text \<open>A statement that may raise and may change the store, followed by the next one.\<close>

definition sthen ::
  "(py_error + 'x) \<times> store \<Rightarrow> ('x \<Rightarrow> store \<Rightarrow> (py_error + 'y) \<times> store) \<Rightarrow>
   (py_error + 'y) \<times> store" where
  "sthen m f = (case fst m of Inl e \<Rightarrow> (Inl e, snd m) | Inr x \<Rightarrow> f x (snd m))"

subsection \<open>Formatting\<close>

text \<open>Python's \<^verbatim>\<open>round\<close>: to the nearest integer, a tie to the even one.\<close>

definition py_round :: "real \<Rightarrow> int" where
  "py_round x =
     (let f = \<lfloor>x\<rfloor>; d = x - of_int f in
      if d < 1 / 2 then f else if 1 / 2 < d then f + 1 else if even f then f else f + 1)"

text \<open>\<^verbatim>\<open>int(x)\<close> of a real: towards zero.\<close>

definition py_trunc :: "real \<Rightarrow> int" where
  "py_trunc x = (if 0 \<le> x then \<lfloor>x\<rfloor> else \<lceil>x\<rceil>)"

text \<open>\<^verbatim>\<open>'%d' % v\<close>: defined on numbers, \<^verbatim>\<open>TypeError\<close> otherwise.\<close>

fun fmt_d :: "pyval \<Rightarrow> py_error + string" where
  "fmt_d (VInt i) = Inr (show_int i)"
| "fmt_d (VBool b) = Inr (if b then ''1'' else ''0'')"
| "fmt_d (VFloat x) = Inr (show_int (py_trunc x))"
| "fmt_d v = Inl TypeError"

text \<open>
  \<^verbatim>\<open>'%.<p>f' % x\<close>: the decimal expansion of \<open>x\<close> rounded to \<open>p\<close> places, and
  \<^verbatim>\<open>'%f'\<close>, which is \<open>p = 6\<close>.
\<close>

fun frac_digits :: "nat \<Rightarrow> int \<Rightarrow> string" where
  "frac_digits p n = (if p = 0 then [] else frac_digits (p - 1) (n div 10) @ [digit_char n])"

declare frac_digits.simps [simp del]

definition fmt_fixed :: "nat \<Rightarrow> real \<Rightarrow> string" where
  "fmt_fixed p x =
     (let n = py_round (\<bar>x\<bar> * 10 ^ p) in
      (if x < 0 then ''-'' else []) @ show_pos (n div 10 ^ p) @ ''.'' @ frac_digits p n)"

definition fmt_f :: "real \<Rightarrow> string" where
  "fmt_f x = fmt_fixed 6 x"

subsection \<open>The line groups\<close>

definition write_job :: "store \<Rightarrow> nat \<Rightarrow> (py_error + string) \<times> store" where
  "write_job h kw =
     sthen (case map_of (h ! kw) ''npara'' of
              Some npara \<Rightarrow>
                (rbind (fmt_d npara) (\<lambda>s. Inr [''% npara '' @ s]), pop_key h kw ''npara'')
            | None \<Rightarrow> (Inr [], h))
       (\<lambda>t1 h1.
          (rbind (case map_of (h1 ! kw) ''maxcore'' of
                    Some maxcore \<Rightarrow> rbind (fmt_d maxcore) (\<lambda>s. Inr [''% maxcore '' @ s])
                  | None \<Rightarrow> Inr [])
             (\<lambda>t2. Inr (join [nl] (t1 @ t2))), h1))"

text \<open>
  \<^verbatim>\<open>text += keywords\<close> extends the list by the elements of any iterable: the items of
  a list, the characters of a text, the keys of a mapping.  \<^verbatim>\<open>' '.join\<close> then wants
  text items.
\<close>

fun py_iter :: "pyval \<Rightarrow> py_error + pyval list" where
  "py_iter (VList xs) = Inr xs"
| "py_iter (VStr s) = Inr (map (\<lambda>c. VStr [c]) s)"
| "py_iter (VDict d) = Inr (map (\<lambda>kv. VStr (fst kv)) d)"
| "py_iter v = Inl TypeError"

fun as_str :: "pyval \<Rightarrow> py_error + string" where
  "as_str (VStr s) = Inr s"
| "as_str v = Inl TypeError"

definition write_keywords :: "'p \<Rightarrow> store \<Rightarrow> nat \<Rightarrow> (py_error + string) \<times> store" where
  "write_keywords properties h kw =
     sthen (case map_of (h ! kw) ''keywords'' of
              Some keywords \<Rightarrow> (Inr keywords, pop_key h kw ''keywords'')
            | None \<Rightarrow> (Inr (VList [VStr ''pbe0'', VStr ''def2-svp'']), h))
       (\<lambda>keywords h1.
          (rbind (py_iter keywords) (\<lambda>items.
           rbind (mapM as_str (VStr ''!'' # items)) (\<lambda>ts. Inr (join '' '' ts))), h1))"

fun kv_fmt :: "string \<Rightarrow> pyval \<Rightarrow> string option" where
  "kv_fmt k (VStr s) = Some ('' '' @ k @ '' '' @ s)"
| "kv_fmt k (VFloat x) = Some ('' '' @ k @ '' '' @ fmt_f x)"
| "kv_fmt k (VBool b) = Some ('' '' @ k @ '' '' @ (if b then ''on'' else ''off''))"
| "kv_fmt k (VInt i) = Some ('' '' @ k @ '' '' @ show_int i)"
| "kv_fmt k v = None"

text \<open>\<^verbatim>\<open>isinstance(v, (str, bool, int, float))\<close>.\<close>

fun is_scalar :: "pyval \<Rightarrow> bool" where
  "is_scalar (VStr s) = True"
| "is_scalar (VBool b) = True"
| "is_scalar (VInt i) = True"
| "is_scalar (VFloat x) = True"
| "is_scalar v = False"

text \<open>
  The first loop of \<open>write_dict\<close>: the parameters whose value is a mapping, each cut
  down to its scalar items, those with none left out.
\<close>

fun blocks :: "pydict \<Rightarrow> (string \<times> pydict) list" where
  "blocks [] = []"
| "blocks ((k0, VDict v0) # kw) =
     (let kv = filter (\<lambda>kv1. is_scalar (snd kv1)) v0 in
      if length kv > 0 then (k0, kv) # blocks kw else blocks kw)"
| "blocks ((k0, v0) # kw) = blocks kw"

definition block_lines :: "string \<times> pydict \<Rightarrow> string list" where
  "block_lines b =
     [''>'' @ fst b, join [nl] (List.map_filter (\<lambda>kv1. kv_fmt (fst kv1) (snd kv1)) (snd b)),
      ''end'']"

definition write_dict :: "pydict \<Rightarrow> string" where
  "write_dict kw =
     (let block = blocks kw in
      if length block > 0 then join [nl] (concat (map block_lines block)) else [])"

text \<open>
  The structure argument: one \<^verbatim>\<open>Atoms\<close> object, or a sequence of them.
\<close>

datatype 'a atoms_arg = Single 'a | Images "'a list"

definition write_xyz :: "'a ase \<Rightarrow> store \<Rightarrow> 'a atoms_arg \<Rightarrow> nat \<Rightarrow> (py_error + string) \<times> store" where
  "write_xyz L h S kw =
     sthen (case map_of (h ! kw) ''charge'' of
              Some charge \<Rightarrow> (Inr charge, pop_key h kw ''charge'')
            | None \<Rightarrow>
                (case S of Single a \<Rightarrow> (Inr (VFloat (initial_charges_sum L a)), h)
                 | Images xs \<Rightarrow> (Inl AttributeError, h)))
       (\<lambda>charge h1.
     sthen (case map_of (h1 ! kw) ''mult'' of
              Some mult \<Rightarrow> (Inr mult, pop_key h1 kw ''mult'')
            | None \<Rightarrow>
                (case S of
                   Single a \<Rightarrow> (Inr (VInt (\<bar>py_round (initial_magmoms_sum L a)\<bar> + 1)), h1)
                 | Images xs \<Rightarrow> (Inl AttributeError, h1)))
       (\<lambda>mult h2.
          (let lines = drop 2 (io_write_xyz L (case S of Single a \<Rightarrow> [a] | Images xs \<Rightarrow> xs)) in
           rbind (fmt_d charge) (\<lambda>c.
           rbind (fmt_d mult) (\<lambda>m.
           Inr (concat ([''>xyz '' @ c @ '' '' @ m @ [nl]] @ lines @ [''end''])))), h2)))"

subsection \<open>The writer\<close>

text \<open>
  \<open>write_aip\<close> gets the address \<open>kw\<close> of its keyword mapping and returns the text it
  hands to \<^verbatim>\<open>fd.write\<close>, or the exception, together with the store it leaves.
\<close>

definition write_aip ::
  "'a ase \<Rightarrow> store \<Rightarrow> 'a atoms_arg \<Rightarrow> 'p \<Rightarrow> nat \<Rightarrow> (py_error + string) \<times> store" where
  "write_aip L h S properties kw0 =
     (let S = (case S of Single a \<Rightarrow> Single a
               | Images xs \<Rightarrow> if length xs > 1 then Single (last xs) else Images xs);
          (kw, h0) = deepcopy h kw0 in
      sthen (write_job h0 kw) (\<lambda>t1 h1.
      sthen (write_keywords properties h1 kw) (\<lambda>t2 h2.
      sthen (Inr (write_dict (h2 ! kw)), h2) (\<lambda>t3 h3.
      sthen (write_xyz L h3 S kw) (\<lambda>t4 h4.
        (Inr (join [nl] (filter (\<lambda>t. length t > 0) [t1, t2, t3, t4])), h4))))))"

text \<open>
  \<^verbatim>\<open>Amesp.write_input\<close> calls \<^verbatim>\<open>write_aip(fd, atoms, properties=properties, **p)\<close> with
  the calculator's parameter mapping \<open>p\<close>: the call builds the keyword mapping of the
  callee as a new object with the items of \<open>p\<close>.
\<close>

definition write_input ::
  "'a ase \<Rightarrow> store \<Rightarrow> 'a atoms_arg \<Rightarrow> 'p \<Rightarrow> nat \<Rightarrow> (py_error + string) \<times> store" where
  "write_input L h S properties p =
     (let (kw, h0) = alloc (h ! p) h in write_aip L h0 S properties kw)"

section \<open>A reference instance of the library\<close>

text \<open>
  The closed examples below need one concrete library.  \<open>ase0\<close> follows ASE's plain
  XYZ reader and writer (\<^verbatim>\<open>ase/io/xyz.py\<close>) and \<^verbatim>\<open>ase.io.read\<close> with its default index
  on structures that are lists of symbol and position; it reads plain decimal literals.
  Its calculator constructor accepts every structure.  Internal coordinates are not
  resolved: its \<open>parse_zmatrix\<close> accepts every body and returns the empty structure.
  No theorem about the module depends on it.
\<close>

type_synonym mol = "(string \<times> real list) list"

definition digits_int :: "string \<Rightarrow> int" where
  "digits_int s = foldl (\<lambda>n c. 10 * n + (of_char c - 48)) 0 s"

definition dec_float :: "string \<Rightarrow> real option" where
  "dec_float s =
     (let neg = (case s of [] \<Rightarrow> False | c # _ \<Rightarrow> c = CHR ''-'');
          body = (if neg then tl s else s);
          ip = takeWhile is_digit body;
          fp = (case dropWhile is_digit body of
                  [] \<Rightarrow> Some []
                | c # r \<Rightarrow> if c = CHR ''.'' then Some r else None)
      in case fp of
           None \<Rightarrow> None
         | Some fp \<Rightarrow>
             if list_all is_digit fp \<and> (ip \<noteq> [] \<or> fp \<noteq> [])
             then Some ((if neg then - 1 else 1) * of_int (digits_int (ip @ fp)) / 10 ^ length fp)
             else None)"

definition dec_int :: "string \<Rightarrow> int option" where
  "dec_int s =
     (case split_ws s of
        [w] \<Rightarrow>
          (let neg = (case w of [] \<Rightarrow> False | c # _ \<Rightarrow> c = CHR ''-'');
               body = (if neg then tl w else w)
           in if body \<noteq> [] \<and> list_all is_digit body
              then Some ((if neg then - 1 else 1) * digits_int body)
              else None)
      | _ \<Rightarrow> None)"

definition chemical_symbols :: "string list" where
  "chemical_symbols =
     [''X'', ''H'', ''He'', ''Li'', ''Be'', ''B'', ''C'', ''N'', ''O'', ''F'', ''Ne'',
      ''Na'', ''Mg'', ''Al'', ''Si'', ''P'', ''S'', ''Cl'', ''Ar'', ''K'', ''Ca'', ''Sc'',
      ''Ti'', ''V'', ''Cr'', ''Mn'', ''Fe'', ''Co'', ''Ni'', ''Cu'', ''Zn'', ''Ga'', ''Ge'',
      ''As'', ''Se'', ''Br'', ''Kr'', ''Rb'', ''Sr'', ''Y'', ''Zr'', ''Nb'', ''Mo'', ''Tc'',
      ''Ru'', ''Rh'', ''Pd'', ''Ag'', ''Cd'', ''In'', ''Sn'', ''Sb'', ''Te'', ''I'', ''Xe'',
      ''Cs'', ''Ba'', ''La'', ''Ce'', ''Pr'', ''Nd'', ''Pm'', ''Sm'', ''Eu'', ''Gd'', ''Tb'',
      ''Dy'', ''Ho'', ''Er'', ''Tm'', ''Yb'', ''Lu'', ''Hf'', ''Ta'', ''W'', ''Re'', ''Os'',
      ''Ir'', ''Pt'', ''Au'', ''Hg'', ''Tl'', ''Pb'', ''Bi'', ''Po'', ''At'', ''Rn'', ''Fr'',
      ''Ra'', ''Ac'', ''Th'', ''Pa'', ''U'', ''Np'', ''Pu'', ''Am'', ''Cm'', ''Bk'', ''Cf'',
      ''Es'', ''Fm'', ''Md'', ''No'', ''Lr'', ''Rf'', ''Db'', ''Sg'', ''Bh'', ''Hs'', ''Mt'',
      ''Ds'', ''Rg'', ''Cn'', ''Nh'', ''Fl'', ''Mc'', ''Lv'', ''Ts'', ''Og'']"

definition mol_Atoms :: "string list \<Rightarrow> real list list \<Rightarrow> py_error + mol" where
  "mol_Atoms syms pos =
     (if \<not> list_all (List.member chemical_symbols) syms then Inl KeyError
      else if length pos = length syms \<and> list_all (\<lambda>p. length p = 3) pos
      then Inr (zip syms pos)
      else Inl ValueError)"

definition lower_char :: "char \<Rightarrow> char" where
  "lower_char c = (let n = (of_char c :: int) in if 65 \<le> n \<and> n \<le> 90 then char_of (n + 32) else c)"

definition upper_char :: "char \<Rightarrow> char" where
  "upper_char c = (let n = (of_char c :: int) in if 97 \<le> n \<and> n \<le> 122 then char_of (n - 32) else c)"

definition capitalize :: "string \<Rightarrow> string" where
  "capitalize s = (case s of [] \<Rightarrow> [] | c # cs \<Rightarrow> upper_char c # map lower_char cs)"

text \<open>\<^verbatim>\<open>symbol, x, y, z = line.split()[:4]\<close> and the three conversions.\<close>

definition xyz_atom_line :: "string \<Rightarrow> py_error + (string \<times> real list)" where
  "xyz_atom_line line =
     (case take 4 (split_ws line) of
        [symbol, x, y, z] \<Rightarrow>
          rbind (np_array1 dec_float [x, y, z]) (\<lambda>p. Inr (capitalize symbol, p))
      | _ \<Rightarrow> Inl ValueError)"

definition readlines :: "string \<Rightarrow> string list" where
  "readlines s = (let ls = split_on nl s in if last ls = [] then butlast ls else ls)"

function xyz_images :: "string list \<Rightarrow> py_error + mol list" where
  "xyz_images [] = Inr []"
| "xyz_images (l0 # rest) =
     (case dec_int l0 of
        None \<Rightarrow> Inl ValueError
      | Some natoms \<Rightarrow>
          (case rest of
             [] \<Rightarrow> Inl IndexError
           | comment # body \<Rightarrow>
               rbind (mapM xyz_atom_line (take (nat natoms) body)) (\<lambda>as.
               if length body < nat natoms then Inl IndexError
               else rbind (mol_Atoms (map fst as) (map snd as)) (\<lambda>a.
                    rbind (xyz_images (drop (nat natoms) body)) (\<lambda>images. Inr (a # images))))))"
  by pat_completeness auto
termination
  by (relation "measure length") auto

definition xyz_read :: "string \<Rightarrow> py_error + mol" where
  "xyz_read s =
     rbind (xyz_images (readlines s))
       (\<lambda>images. if images = [] then Inl StopIteration else Inr (last images))"

definition pad_left :: "nat \<Rightarrow> string \<Rightarrow> string" where
  "pad_left w s = replicate (w - length s) CHR '' '' @ s"

definition pad_right :: "nat \<Rightarrow> string \<Rightarrow> string" where
  "pad_right w s = s @ replicate (w - length s) CHR '' ''"

definition xyz_write :: "mol list \<Rightarrow> string list" where
  "xyz_write images =
     concat (map (\<lambda>a. [show_nat (length a) @ [nl], [nl]] @
                       map (\<lambda>sp. pad_right 2 (fst sp) @
                                  concat (map (\<lambda>x. '' '' @ pad_left 22 (fmt_fixed 15 x)) (snd sp)) @
                                  [nl]) a)
                 images)"

definition ase0 :: "mol ase" where
  "ase0 = \<lparr>to_float = dec_float, Atoms = mol_Atoms,
           FileIOCalculator_init = (\<lambda>a. Inr ()),
           Hartree = 27.211386024367243, Bohr = 0.5291772105638411,
           io_read_xyz = xyz_read, io_write_xyz = xyz_write,
           parse_zmatrix = (\<lambda>zmat coord. Inr []),
           initial_charges_sum = (\<lambda>a. 0), initial_magmoms_sum = (\<lambda>a. 0)\<rparr>"

section \<open>Sample transcripts\<close>

text \<open>One geometry section and nothing else.\<close>

definition aop_geometry_only :: string where
  "aop_geometry_only = ''Current Geometry(angstroms):\<newline>\<newline> H 0.0 0.0 0.0\<newline>\<newline>''"

text \<open>
  Two optimisation steps, each with its geometry, energy, dipole moment and gradient,
  and one force section after the last step.
\<close>

definition aop_two_images :: string where
  "aop_two_images =
     ''Current Geometry(angstroms):\<newline>\<newline> H 0.0 0.0 0.0\<newline>\<newline>'' @
     '' ETot = -0.5 Ekin = 0.4\<newline>'' @
     '' Dipole moment (Debye):\<newline> X= 0.0 Y= 0.0 Z= 1.0 Tot= 1.0\<newline>'' @
     '' Cartesian Gradient (Hartree/Bohr):\<newline> x y z\<newline> 1 0.0 0.0 0.25\<newline>\<newline>'' @
     ''Current Geometry(angstroms):\<newline>\<newline> H 0.0 0.0 0.5\<newline>\<newline>'' @
     '' ETot = -0.75 Ekin = 0.4\<newline>'' @
     '' Dipole moment (Debye):\<newline> X= 0.0 Y= 0.0 Z= 2.0 Tot= 2.0\<newline>'' @
     '' Cartesian Gradient (Hartree/Bohr):\<newline> x y z\<newline> 1 0.0 0.0 0.5\<newline>\<newline>'' @
     '' Cartesian Force (Hartree/Bohr):\<newline> x y z\<newline> 1 0.0 0.0 -0.5\<newline>\<newline>''"

text \<open>
  Two steps with energy and dipole moment each, and the atomic charges printed once,
  after the last step.
\<close>

definition aop_charges_once :: string where
  "aop_charges_once =
     ''Current Geometry(angstroms):\<newline>\<newline> H 0.0 0.0 0.0\<newline>\<newline>'' @
     '' ETot = -0.5 Ekin = 0.4\<newline>'' @
     '' Dipole moment (Debye):\<newline> X= 0.0 Y= 0.0 Z= 1.0 Tot= 1.0\<newline>'' @
     ''Current Geometry(angstroms):\<newline>\<newline> H 0.0 0.0 0.5\<newline>\<newline>'' @
     '' ETot = -0.75 Ekin = 0.4\<newline>'' @
     '' Dipole moment (Debye):\<newline> X= 0.0 Y= 0.0 Z= 2.0 Tot= 2.0\<newline>'' @
     '' Mulliken charges:\<newline>\<newline> 1 H 0.0\<newline> Sum of Mulliken charges = 0.0\<newline>''"

text \<open>No geometry section, and an energy line whose value is not a number.\<close>

definition aop_bad_energy :: string where
  "aop_bad_energy = ''ETot = x Ekin''"

text \<open>
  Input transcripts: a Cartesian region that is not closed by \<^verbatim>\<open>end\<close>, two Cartesian
  regions, a text with neither geometry form, an internal-coordinate region that is not
  closed, and the bare tag \<^verbatim>\<open>>xyz\<close> in front of a complete internal-coordinate region.
\<close>

definition aip_no_end :: string where
  "aip_no_end = ''! hf 3-21g\<newline>>xyz 0 1\<newline> H 0.0 0.0 0.0\<newline>''"

definition aip_two_regions :: string where
  "aip_two_regions =
     ''>xyz 0 1\<newline> H 0.0 0.0 0.0\<newline>end\<newline>'' @
     ''>xyz 0 1\<newline> H 0.0 0.0 0.5\<newline>end''"

definition aip_no_geometry :: string where
  "aip_no_geometry = ''! hf 3-21g\<newline>>method\<newline> eda mayer\<newline>end''"

definition aip_zmat_no_end :: string where
  "aip_zmat_no_end = ''! hf 3-21g\<newline>>zmat 0 1\<newline>H\<newline>''"

definition aip_tag_before_zmat :: string where
  "aip_tag_before_zmat = ''>xyz\<newline>>zmat 0 1\<newline>H\<newline>end''"

text \<open>
  A structure and two parameter mappings: one hydrogen atom, the net charge given as
  \<open>0\<close> and as \<open>-1\<close>; and a mapping with a named block.
\<close>

definition h_atom :: mol where
  "h_atom = [(''H'', [0, 0, 0.5])]"

definition params_neutral :: pydict where
  "params_neutral = [(''charge'', VInt 0), (''mult'', VInt 1)]"

definition params_anion :: pydict where
  "params_anion = [(''charge'', VInt (- 1)), (''mult'', VInt 1)]"

definition params_block :: pydict where
  "params_block =
     [(''npara'', VInt 4), (''keywords'', VList [VStr ''hf'', VStr ''3-21g'']),
      (''method'', VDict [(''eda'', VStr ''mayer''), (''grid'', VList [VInt 1]),
                          (''diis'', VBool True), (''damp'', VFloat 1.5), (''maxiter'', VInt 64)]),
      (''guess'', VDict [(''orbitals'', VNone)]),
      (''charge'', VInt 0), (''mult'', VInt 1)]"

text \<open>The transcripts that the writer produces for them.\<close>

definition aip_anion :: string where
  "aip_anion =
     ''! pbe0 def2-svp\<newline>>xyz -1 1\<newline>H       0.000000000000000      0.000000000000000      0.500000000000000\<newline>end''"

definition aip_neutral :: string where
  "aip_neutral =
     ''! pbe0 def2-svp\<newline>>xyz 0 1\<newline>H       0.000000000000000      0.000000000000000      0.500000000000000\<newline>end''"

definition aip_block :: string where
  "aip_block =
     ''% npara 4\<newline>! hf 3-21g\<newline>>method\<newline> eda mayer\<newline> diis on\<newline> damp 1.500000\<newline> maxiter 64\<newline>end\<newline>>xyz 0 1\<newline>H       0.000000000000000      0.000000000000000      0.500000000000000\<newline>end''"

section \<open>Basic facts\<close>

lemma rbind_Inr [simp]: "rbind (Inr x) f = f x"
  by (simp add: rbind_def)

lemma rbind_Inl [simp]: "rbind (Inl e) f = Inl e"
  by (simp add: rbind_def)

lemma rbind_eq_Inr: "rbind m f = Inr y \<longleftrightarrow> (\<exists>x. m = Inr x \<and> f x = Inr y)"
  by (cases m) auto

lemma mapM_length: "mapM f xs = Inr ys \<Longrightarrow> length ys = length xs"
  by (induction xs arbitrary: ys) (auto simp: rbind_eq_Inr)

lemma mapM_nth: "mapM f xs = Inr ys \<Longrightarrow> i < length xs \<Longrightarrow> f (xs ! i) = Inr (ys ! i)"
proof (induction xs arbitrary: ys i)
  case Nil
  then show ?case by simp
next
  case (Cons x xs)
  from Cons.prems(1) obtain y zs where
    y: "f x = Inr y" and zs: "mapM f xs = Inr zs" and ys: "ys = y # zs"
    by (auto simp: rbind_eq_Inr)
  show ?case
  proof (cases i)
    case 0
    with y ys show ?thesis by simp
  next
    case (Suc j)
    with Cons.prems(2) have "j < length xs" by simp
    from Cons.IH [OF zs this] Suc ys show ?thesis by simp
  qed
qed

lemma mapM_returns:
  "(\<And>x. x \<in> set xs \<Longrightarrow> \<exists>y. f x = Inr y) \<Longrightarrow> \<exists>ys. mapM f xs = Inr ys"
proof (induction xs)
  case Nil
  show ?case by simp
next
  case (Cons x xs)
  from Cons.prems [of x] obtain y where y: "f x = Inr y" by auto
  from Cons.IH Cons.prems obtain ys where "mapM f xs = Inr ys" by auto
  with y show ?case by simp
qed

lemma py_index_nat:
  "py_index xs (int i) = (if i < length xs then Inr (xs ! i) else Inl IndexError)"
  by (simp add: py_index_def)

lemma py_index_last: "xs \<noteq> [] \<Longrightarrow> py_index xs (- 1) = Inr (last xs)"
proof -
  assume ne: "xs \<noteq> []"
  then have len: "0 < length xs" by simp
  then have "nat (int (length xs) + - 1) = length xs - 1" by simp
  with ne len show ?thesis
    by (simp add: py_index_def last_conv_nth Suc_le_eq)
qed

lemma py_index_outside:
  "i < - int (length xs) \<or> int (length xs) \<le> i \<Longrightarrow> py_index xs i = Inl IndexError"
  by (auto simp: py_index_def)

section \<open>The image sequence\<close>

lemma parse_aop_xyz_lengths:
  assumes "parse_aop_xyz L txt = Inr (element, position)"
  shows "length element = length (findall pat_aop_xyz txt)"
    and "length position = length (findall pat_aop_xyz txt)"
  using assms
  by (auto simp: parse_aop_xyz_def Let_def rbind_eq_Inr groups1_def dest!: mapM_length)

lemma parse_aop_xyz_nth:
  assumes "parse_aop_xyz L txt = Inr (element, position)"
    and "i < length (findall pat_aop_xyz txt)"
  shows "mapM (\<lambda>x. py_index (split_ws x) 0)
           (split_on nl (groups1 (findall pat_aop_xyz txt) ! i)) = Inr (element ! i)"
    and "rows_array L (groups1 (findall pat_aop_xyz txt) ! i) = Inr (position ! i)"
proof -
  let ?xs = "groups1 (findall pat_aop_xyz txt)"
  from assms(1) have
    e: "mapM (\<lambda>xyz. mapM (\<lambda>x. py_index (split_ws x) 0) (split_on nl xyz)) ?xs = Inr element"
    and p: "mapM (rows_array L) ?xs = Inr position"
    by (auto simp: parse_aop_xyz_def Let_def rbind_eq_Inr)
  from assms(2) have i: "i < length ?xs"
    by (simp add: groups1_def)
  from mapM_nth [OF e i]
  show "mapM (\<lambda>x. py_index (split_ws x) 0) (split_on nl (?xs ! i)) = Inr (element ! i)" .
  from mapM_nth [OF p i]
  show "rows_array L (?xs ! i) = Inr (position ! i)" .
qed

lemma build_image_Inr:
  "build_image L element position energy force dipole charge magmom i = Inr im \<longleftrightarrow>
     (\<exists>a. Atoms L (element ! i) (position ! i) = Inr a \<and> Amesp_init L a = Inr () \<and>
          i < length energy \<and> i < length force \<and> i < length dipole \<and>
          i < length charge \<and> i < length magmom \<and>
          im = \<lparr>atoms = a,
                calc_results = \<lparr>r_energy = energy ! i, r_forces = force ! i,
                                r_dipole = dipole ! i, r_charges = charge ! i,
                                r_magmoms = magmom ! i\<rparr>\<rparr>)"
  by (auto simp: build_image_def rbind_eq_Inr py_index_nat split: if_splits)

lemma iread_aop_Inr:
  "iread_aop L txt = Inr images \<longleftrightarrow>
     (\<exists>element position charge magmom dipole energy force.
        parse_aop_xyz L txt = Inr (element, position) \<and>
        parse_aop_charge L txt (length element) = Inr charge \<and>
        parse_aop_spin L txt (length element) = Inr magmom \<and>
        parse_aop_dipole L txt (length element) = Inr dipole \<and>
        parse_aop_energy L txt (length element) = Inr energy \<and>
        parse_aop_gradient L txt (length element) = Inr force \<and>
        mapM (build_image L element position energy force dipole charge magmom)
          [0..<length element] = Inr images)"
  by (auto simp: iread_aop_def rbind_eq_Inr Let_def)


section \<open>Alignment of the sequences\<close>

text \<open>
  What the five extractors do with a missing section, the bound on what they return, and
  the values of the sample transcripts.
\<close>

lemma zero_occurrences:
  fixes L :: "'a ase"
  shows "findall pat_aop_charge txt = [] \<Longrightarrow> parse_aop_charge L txt n = Inr (replicate n None)"
    and "findall pat_aop_spin txt = [] \<Longrightarrow> parse_aop_spin L txt n = Inr (replicate n None)"
    and "findall pat_aop_gradient txt = [] \<Longrightarrow> parse_aop_gradient L txt n = Inr (replicate n None)"
    and "findall pat_aop_dipole txt = [] \<Longrightarrow> parse_aop_dipole L txt n = Inr []"
    and "findall pat_aop_energy txt = [] \<Longrightarrow> parse_aop_energy L txt n = Inr []"
  by (simp_all add: parse_aop_charge_def parse_aop_spin_def parse_aop_gradient_def
      parse_aop_dipole_def parse_aop_energy_def groups1_def np_array1_def)

lemma aligned_length:
  fixes L :: "'a ase"
  shows "parse_aop_charge L txt n = Inr cs \<Longrightarrow> length cs \<le> n + 1"
    and "parse_aop_spin L txt n = Inr ms \<Longrightarrow> length ms \<le> n + 1"
    and "parse_aop_gradient L txt n = Inr fs \<Longrightarrow> length fs \<le> n + 1"
    and "parse_aop_dipole L txt n = Inr ds \<Longrightarrow> length ds \<le> n + 1"
    and "parse_aop_energy L txt n = Inr es \<Longrightarrow> length es \<le> n + 1"
  by (auto simp: parse_aop_charge_def parse_aop_spin_def parse_aop_gradient_def
      parse_aop_dipole_def parse_aop_energy_def rbind_eq_Inr Let_def split: if_splits)

lemma eval_geometry_only:
  "length (findall pat_aop_xyz aop_geometry_only) = 1"
  "parse_aop_charge ase0 aop_geometry_only 1 = Inr [None]"
  "parse_aop_spin ase0 aop_geometry_only 1 = Inr [None]"
  "parse_aop_gradient ase0 aop_geometry_only 1 = Inr [None]"
  "parse_aop_dipole ase0 aop_geometry_only 1 = Inr []"
  "parse_aop_energy ase0 aop_geometry_only 1 = Inr []"
  by code_simp+

lemma eval_two_images:
  "iread_aop ase0 aop_two_images =
     Inr [\<lparr>atoms = [(''H'', [0, 0, 0])],
            calc_results = \<lparr>r_energy = - 0.5 * Hartree ase0,
              r_forces = Some [[0, 0, - 0.25 * (Hartree ase0 / Bohr ase0)]],
              r_dipole = [0, 0, 1 * Bohr ase0], r_charges = None, r_magmoms = None\<rparr>\<rparr>,
          \<lparr>atoms = [(''H'', [0, 0, 0.5])],
            calc_results = \<lparr>r_energy = - 0.75 * Hartree ase0,
              r_forces = Some [[0, 0, - 0.5 * (Hartree ase0 / Bohr ase0)]],
              r_dipole = [0, 0, 2 * Bohr ase0], r_charges = None, r_magmoms = None\<rparr>\<rparr>]"
  by code_simp

lemma eval_two_images_results:
  "read_results ase0 aop_two_images =
     Inr \<lparr>c_charge = None, c_magmoms = None, c_dipole = [0, 0, 2 * Bohr ase0],
          c_energy = - 0.75 * Hartree ase0,
          c_forces = Some [[0, 0, - 0.5 * (Hartree ase0 / Bohr ase0)]]\<rparr>"
  by code_simp

lemma eval_two_images_sections:
  "groups1 (findall pat_aop_force aop_two_images) = ['' 1 0.0 0.0 -0.5'']"
  "groups1 (findall pat_aop_gradient aop_two_images) = ['' 1 0.0 0.0 0.25'', '' 1 0.0 0.0 0.5'']"
  "rows_array ase0 '' 1 0.0 0.0 -0.5'' = Inr [[0, 0, - 0.5]]"
  "rows_array ase0 '' 1 0.0 0.0 0.5'' = Inr [[0, 0, 0.5]]"
  by code_simp+

lemma eval_two_images_extractors:
  "parse_aop_xyz ase0 aop_two_images = Inr ([[''H''], [''H'']], [[[0, 0, 0]], [[0, 0, 0.5]]])"
  "parse_aop_charge ase0 aop_two_images 2 = Inr [None, None]"
  "parse_aop_spin ase0 aop_two_images 2 = Inr [None, None]"
  "parse_aop_dipole ase0 aop_two_images 2 = Inr [[0, 0, 1 * Bohr ase0], [0, 0, 2 * Bohr ase0]]"
  "parse_aop_energy ase0 aop_two_images 2 = Inr [- 0.5 * Hartree ase0, - 0.75 * Hartree ase0]"
  "parse_aop_gradient ase0 aop_two_images 2 =
     Inr [Some [[0, 0, - 0.25 * (Hartree ase0 / Bohr ase0)]],
          Some [[0, 0, - 0.5 * (Hartree ase0 / Bohr ase0)]]]"
  by code_simp+

lemma eval_atoms:
  "Atoms ase0 [''H''] [[0, 0, 0]] = Inr [(''H'', [0, 0, 0])]"
  "Atoms ase0 [''H''] [[0, 0, 0.5]] = Inr [(''H'', [0, 0, 0.5])]"
  "Amesp_init ase0 [(''H'', [0, 0, 0])] = Inr ()"
  "Amesp_init ase0 [(''H'', [0, 0, 0.5])] = Inr ()"
  by code_simp+

lemma eval_charges_once:
  "length (findall pat_aop_xyz aop_charges_once) = 2"
  "iread_aop ase0 aop_charges_once = Inl IndexError"
  by code_simp+

lemma eval_empty_transcript: "iread_aop ase0 [] = Inr []"
  by code_simp

section \<open>Claims on the output transcript\<close>

text \<open>
  C1.  Every non-geometry sequence is cut to its first \<open>N + 1\<close> occurrences
  (\<open>aligned_length\<close>), and the charge, spin and gradient extractors replace a
  sequence without occurrences by \<open>N\<close> absent elements (\<open>zero_occurrences\<close>).  The
  dipole and energy extractors do not: on a transcript with one geometry section and
  no energy line they return the empty sequence, and the assembler raises
  \<^verbatim>\<open>IndexError\<close> at \<^verbatim>\<open>energy[0]\<close>.
\<close>

theorem missing_energy_section_raises:
  "length (findall pat_aop_xyz aop_geometry_only) = 1 \<and>
   parse_aop_charge ase0 aop_geometry_only 1 = Inr [None] \<and>
   parse_aop_spin ase0 aop_geometry_only 1 = Inr [None] \<and>
   parse_aop_gradient ase0 aop_geometry_only 1 = Inr [None] \<and>
   parse_aop_dipole ase0 aop_geometry_only 1 = Inr [] \<and>
   parse_aop_energy ase0 aop_geometry_only 1 = Inr [] \<and>
   iread_aop ase0 aop_geometry_only = Inl IndexError"
proof -
  have "iread_aop ase0 aop_geometry_only = Inl IndexError"
    by code_simp
  with eval_geometry_only show ?thesis
    by simp
qed

text \<open>
  C4, as claimed: a transcript with exactly \<open>k\<close> geometry sections is parsed to
  exactly \<open>k\<close> images.  It fails where a sequence has occurrences, but fewer than
  there are geometry sections: the charges printed once after two steps.
\<close>

theorem image_count_counterexample:
  "length (findall pat_aop_xyz aop_charges_once) = 2 \<and>
   iread_aop ase0 aop_charges_once = Inl IndexError"
  using eval_charges_once by simp

text \<open>
  C4, amended: whenever the sequence parse of a transcript with exactly \<open>k\<close> geometry
  sections returns, it returns exactly \<open>k\<close> images in transcript order: image \<open>i\<close> is
  the structure built from the symbols and positions of the \<open>i\<close>-th geometry section.
  It returns, with \<open>k\<close> images, whenever the six extractors return, each of the five
  aligned sequences has at least \<open>k\<close> elements, the structure constructor accepts
  every section and the calculator constructor accepts every structure.
\<close>

theorem iread_aop_image_count:
  fixes L :: "'a ase"
  shows
    "(iread_aop L txt = Inr images \<longrightarrow>
        length images = length (findall pat_aop_xyz txt) \<and>
        (\<forall>i < length images. \<exists>syms pos.
           mapM (\<lambda>x. py_index (split_ws x) 0)
             (split_on nl (groups1 (findall pat_aop_xyz txt) ! i)) = Inr syms \<and>
           rows_array L (groups1 (findall pat_aop_xyz txt) ! i) = Inr pos \<and>
           Atoms L syms pos = Inr (atoms (images ! i)))) \<and>
     (parse_aop_xyz L txt = Inr (element, position) \<and>
      parse_aop_charge L txt (length element) = Inr charge \<and>
      parse_aop_spin L txt (length element) = Inr magmom \<and>
      parse_aop_dipole L txt (length element) = Inr dipole \<and>
      parse_aop_energy L txt (length element) = Inr energy \<and>
      parse_aop_gradient L txt (length element) = Inr force \<and>
      length element \<le> length charge \<and> length element \<le> length magmom \<and>
      length element \<le> length dipole \<and> length element \<le> length energy \<and>
      length element \<le> length force \<and>
      (\<forall>i < length element. \<exists>a. Atoms L (element ! i) (position ! i) = Inr a \<and>
                                    Amesp_init L a = Inr ()) \<longrightarrow>
        (\<exists>images. iread_aop L txt = Inr images \<and>
                  length images = length (findall pat_aop_xyz txt)))"
proof (intro conjI impI)
  assume r: "iread_aop L txt = Inr images"
  then obtain element position charge magmom dipole energy force where
    x: "parse_aop_xyz L txt = Inr (element, position)" and
    m: "mapM (build_image L element position energy force dipole charge magmom)
          [0..<length element] = Inr images"
    unfolding iread_aop_Inr by blast
  from mapM_length [OF m] parse_aop_xyz_lengths(1) [OF x]
  show k: "length images = length (findall pat_aop_xyz txt)"
    by simp
  show "\<forall>i < length images. \<exists>syms pos.
           mapM (\<lambda>x. py_index (split_ws x) 0)
             (split_on nl (groups1 (findall pat_aop_xyz txt) ! i)) = Inr syms \<and>
           rows_array L (groups1 (findall pat_aop_xyz txt) ! i) = Inr pos \<and>
           Atoms L syms pos = Inr (atoms (images ! i))"
  proof (intro allI impI)
    fix i
    assume i: "i < length images"
    with k parse_aop_xyz_lengths(1) [OF x] have ie: "i < length [0..<length element]"
      by simp
    from mapM_nth [OF m ie] ie
    have "build_image L element position energy force dipole charge magmom i = Inr (images ! i)"
      by simp
    then have a: "Atoms L (element ! i) (position ! i) = Inr (atoms (images ! i))"
      by (auto simp: build_image_Inr)
    from i k have "i < length (findall pat_aop_xyz txt)"
      by simp
    from parse_aop_xyz_nth [OF x this] a
    show "\<exists>syms pos.
           mapM (\<lambda>x. py_index (split_ws x) 0)
             (split_on nl (groups1 (findall pat_aop_xyz txt) ! i)) = Inr syms \<and>
           rows_array L (groups1 (findall pat_aop_xyz txt) ! i) = Inr pos \<and>
           Atoms L syms pos = Inr (atoms (images ! i))"
      by blast
  qed
next
  assume h: "parse_aop_xyz L txt = Inr (element, position) \<and>
      parse_aop_charge L txt (length element) = Inr charge \<and>
      parse_aop_spin L txt (length element) = Inr magmom \<and>
      parse_aop_dipole L txt (length element) = Inr dipole \<and>
      parse_aop_energy L txt (length element) = Inr energy \<and>
      parse_aop_gradient L txt (length element) = Inr force \<and>
      length element \<le> length charge \<and> length element \<le> length magmom \<and>
      length element \<le> length dipole \<and> length element \<le> length energy \<and>
      length element \<le> length force \<and>
      (\<forall>i < length element. \<exists>a. Atoms L (element ! i) (position ! i) = Inr a \<and>
                                    Amesp_init L a = Inr ())"
  have "\<exists>im. build_image L element position energy force dipole charge magmom i = Inr im"
    if "i \<in> set [0..<length element]" for i
  proof -
    from that have i: "i < length element" by simp
    with h obtain a where
      "Atoms L (element ! i) (position ! i) = Inr a" and "Amesp_init L a = Inr ()"
      by blast
    with h i show ?thesis
      by (simp add: build_image_Inr)
  qed
  then obtain images where
    m: "mapM (build_image L element position energy force dipole charge magmom)
          [0..<length element] = Inr images"
    using mapM_returns [of "[0..<length element]"
        "build_image L element position energy force dipole charge magmom"]
    by blast
  with h have r: "iread_aop L txt = Inr images"
    unfolding iread_aop_Inr by blast
  from h have x: "parse_aop_xyz L txt = Inr (element, position)"
    by simp
  from mapM_length [OF m] parse_aop_xyz_lengths(1) [OF x]
  have "length images = length (findall pat_aop_xyz txt)"
    by simp
  with r show "\<exists>images. iread_aop L txt = Inr images \<and>
                  length images = length (findall pat_aop_xyz txt)"
    by blast
qed

theorem iread_aop_image_count_witness:
  "length (findall pat_aop_xyz aop_two_images) = 2 \<and>
   (\<exists>images. iread_aop ase0 aop_two_images = Inr images \<and> length images = 2 \<and>
      Atoms ase0 [''H''] [[0, 0, 0]] = Inr (atoms (images ! 0)) \<and>
      Atoms ase0 [''H''] [[0, 0, 0.5]] = Inr (atoms (images ! 1))) \<and>
   length (findall pat_aop_xyz []) = 0 \<and> iread_aop ase0 [] = Inr []"
proof -
  let ?images = "[\<lparr>atoms = [(''H'', [0, 0, 0])],
            calc_results = \<lparr>r_energy = - 0.5 * Hartree ase0,
              r_forces = Some [[0, 0, - 0.25 * (Hartree ase0 / Bohr ase0)]],
              r_dipole = [0, 0, 1 * Bohr ase0], r_charges = None, r_magmoms = None\<rparr>\<rparr>,
          \<lparr>atoms = [(''H'', [0, 0, 0.5])],
            calc_results = \<lparr>r_energy = - 0.75 * Hartree ase0,
              r_forces = Some [[0, 0, - 0.5 * (Hartree ase0 / Bohr ase0)]],
              r_dipole = [0, 0, 2 * Bohr ase0], r_charges = None, r_magmoms = None\<rparr>\<rparr>]"
  let ?element = "[[''H''], [''H'']]"
  let ?position = "[[[0, 0, 0]], [[0, 0, 0.5]]] :: real list list list"
  have e: "iread_aop ase0 aop_two_images = Inr ?images"
    by (rule eval_two_images)
  from iread_aop_image_count [of ase0 aop_two_images ?images, THEN conjunct1, THEN mp, OF e]
  have k: "length (findall pat_aop_xyz aop_two_images) = 2"
    by simp
  have c: "\<forall>i < length ?element.
      \<exists>a. Atoms ase0 (?element ! i) (?position ! i) = Inr a \<and> Amesp_init ase0 a = Inr ()"
    using eval_atoms by (simp add: less_Suc_eq)
  have l: "length ?element = 2"
    by simp
  from eval_two_images_extractors c
  have "parse_aop_xyz ase0 aop_two_images = Inr (?element, ?position) \<and>
      parse_aop_charge ase0 aop_two_images (length ?element) = Inr [None, None] \<and>
      parse_aop_spin ase0 aop_two_images (length ?element) = Inr [None, None] \<and>
      parse_aop_dipole ase0 aop_two_images (length ?element) =
        Inr [[0, 0, 1 * Bohr ase0], [0, 0, 2 * Bohr ase0]] \<and>
      parse_aop_energy ase0 aop_two_images (length ?element) =
        Inr [- 0.5 * Hartree ase0, - 0.75 * Hartree ase0] \<and>
      parse_aop_gradient ase0 aop_two_images (length ?element) =
        Inr [Some [[0, 0, - 0.25 * (Hartree ase0 / Bohr ase0)]],
             Some [[0, 0, - 0.5 * (Hartree ase0 / Bohr ase0)]]] \<and>
      length ?element \<le> length [None :: real list option, None] \<and>
      length ?element \<le> length [None :: real list option, None] \<and>
      length ?element \<le> length [[0, 0, 1 * Bohr ase0], [0, 0, 2 * Bohr ase0]] \<and>
      length ?element \<le> length [- 0.5 * Hartree ase0, - 0.75 * Hartree ase0] \<and>
      length ?element \<le> length [Some [[0, 0, - 0.25 * (Hartree ase0 / Bohr ase0)]],
             Some [[0, 0, - 0.5 * (Hartree ase0 / Bohr ase0)]]] \<and>
      (\<forall>i < length ?element.
         \<exists>a. Atoms ase0 (?element ! i) (?position ! i) = Inr a \<and> Amesp_init ase0 a = Inr ())"
    unfolding l by (intro conjI) simp_all
  from iread_aop_image_count [THEN conjunct2, THEN mp, OF this]
  obtain images where r: "iread_aop ase0 aop_two_images = Inr images"
    and n: "length images = length (findall pat_aop_xyz aop_two_images)"
    by blast
  from r e have "images = ?images"
    by simp
  with r n k eval_atoms(1,2)
  have "\<exists>images. iread_aop ase0 aop_two_images = Inr images \<and> length images = 2 \<and>
      Atoms ase0 [''H''] [[0, 0, 0]] = Inr (atoms (images ! 0)) \<and>
      Atoms ase0 [''H''] [[0, 0, 0.5]] = Inr (atoms (images ! 1))"
    by simp
  moreover
  from iread_aop_image_count [of ase0 "[]" "[]", THEN conjunct1, THEN mp,
      OF eval_empty_transcript]
  have "length (findall pat_aop_xyz []) = 0"
    by simp
  ultimately show ?thesis
    using k eval_empty_transcript by simp
qed

text \<open>
  C5, as claimed: on every transcript an index outside the image range is an
  \<^verbatim>\<open>IndexError\<close>, also when there is no geometry section.  It fails where the
  sequence parse itself raises: without a geometry section and with an energy line whose
  value is not a number, \<open>read_aop\<close> raises \<^verbatim>\<open>ValueError\<close> at every index.
\<close>

theorem read_aop_index_counterexample:
  "length (findall pat_aop_xyz aop_bad_energy) = 0 \<and>
   iread_aop ase0 aop_bad_energy = Inl ValueError \<and>
   read_aop ase0 aop_bad_energy (- 1) = Inl ValueError \<and>
   read_aop ase0 aop_bad_energy 5 = Inl ValueError"
  by code_simp

text \<open>
  C5, amended: \<open>read_aop\<close> materialises the sequence of \<open>iread_aop\<close> and indexes it.
  For every transcript whose sequence parse returns a sequence, index \<open>-1\<close> selects
  the last element of a sequence that is not empty, and an index outside
  \<open>-n, ..., n - 1\<close> for a sequence of length \<open>n\<close> is an \<^verbatim>\<open>IndexError\<close>; so is every
  index when the transcript has no geometry section.
\<close>

theorem read_aop_index_selection:
  fixes L :: "'a ase"
  assumes "iread_aop L txt = Inr images"
  shows "(images \<noteq> [] \<longrightarrow> read_aop L txt (- 1) = Inr (last images)) \<and>
         (i < - int (length images) \<or> int (length images) \<le> i \<longrightarrow>
            read_aop L txt i = Inl IndexError) \<and>
         (length (findall pat_aop_xyz txt) = 0 \<longrightarrow> read_aop L txt i = Inl IndexError)"
proof (intro conjI impI)
  assume "images \<noteq> []"
  with assms show "read_aop L txt (- 1) = Inr (last images)"
    by (simp add: read_aop_def py_index_last)
next
  assume "i < - int (length images) \<or> int (length images) \<le> i"
  with assms show "read_aop L txt i = Inl IndexError"
    by (simp add: read_aop_def py_index_outside)
next
  assume "length (findall pat_aop_xyz txt) = 0"
  moreover from assms obtain element position charge magmom dipole energy force where
    x: "parse_aop_xyz L txt = Inr (element, position)" and
    m: "mapM (build_image L element position energy force dipole charge magmom)
          [0..<length element] = Inr images"
    unfolding iread_aop_Inr by blast
  ultimately have "images = []"
    using mapM_length [OF m] parse_aop_xyz_lengths(1) [OF x] by simp
  with assms show "read_aop L txt i = Inl IndexError"
    by (simp add: read_aop_def py_index_def)
qed

theorem read_aop_index_selection_witness:
  "(\<exists>images. iread_aop ase0 aop_two_images = Inr images \<and> length images = 2 \<and>
      read_aop ase0 aop_two_images (- 1) = Inr (images ! 1)) \<and>
   read_aop ase0 aop_two_images 2 = Inl IndexError \<and>
   read_aop ase0 aop_two_images (- 3) = Inl IndexError \<and>
   iread_aop ase0 [] = Inr [] \<and> read_aop ase0 [] (- 1) = Inl IndexError"
proof -
  let ?images = "[\<lparr>atoms = [(''H'', [0, 0, 0])],
            calc_results = \<lparr>r_energy = - 0.5 * Hartree ase0,
              r_forces = Some [[0, 0, - 0.25 * (Hartree ase0 / Bohr ase0)]],
              r_dipole = [0, 0, 1 * Bohr ase0], r_charges = None, r_magmoms = None\<rparr>\<rparr>,
          \<lparr>atoms = [(''H'', [0, 0, 0.5])],
            calc_results = \<lparr>r_energy = - 0.75 * Hartree ase0,
              r_forces = Some [[0, 0, - 0.5 * (Hartree ase0 / Bohr ase0)]],
              r_dipole = [0, 0, 2 * Bohr ase0], r_charges = None, r_magmoms = None\<rparr>\<rparr>]"
  have e: "iread_aop ase0 aop_two_images = Inr ?images"
    by (rule eval_two_images)
  from read_aop_index_selection [OF e, of "- 1"]
  have l: "read_aop ase0 aop_two_images (- 1) = Inr (?images ! 1)"
    by simp
  from read_aop_index_selection [OF e, of 2]
  have a: "read_aop ase0 aop_two_images 2 = Inl IndexError"
    by simp
  from read_aop_index_selection [OF e, of "- 3"]
  have b: "read_aop ase0 aop_two_images (- 3) = Inl IndexError"
    by simp
  from read_aop_index_selection [OF eval_empty_transcript, of "- 1"]
  have c: "read_aop ase0 [] (- 1) = Inl IndexError"
    by simp
  from e l a b c eval_empty_transcript show ?thesis
    by simp
qed


lemma read_results_forces:
  "read_results L txt = Inr res \<Longrightarrow> parse_aop_force L txt = Inr (c_forces res)"
  by (auto simp: read_results_def rbind_eq_Inr Let_def)

lemma parse_aop_force_first:
  assumes "groups1 (findall pat_aop_force txt) = fbody # fs"
    and "rows_array L fbody = Inr v"
  shows "parse_aop_force L txt = Inr (Some (map (map (\<lambda>x. x * (Hartree L / Bohr L))) v))"
  using assms by (simp add: parse_aop_force_def)

lemma parse_aop_gradient_nth:
  assumes p: "parse_aop_gradient L txt n = Inr force"
    and ne: "groups1 (findall pat_aop_gradient txt) \<noteq> []"
    and i: "i < length force"
    and g: "rows_array L (groups1 (findall pat_aop_gradient txt) ! i) = Inr g"
  shows "force ! i = Some (map (map (\<lambda>x. - (x * (Hartree L / Bohr L)))) g)"
proof -
  let ?gs = "groups1 (findall pat_aop_gradient txt)"
  let ?f = "\<lambda>force. rbind (rows_array L force)
              (\<lambda>m. Inr (map (map (\<lambda>x. x * Hartree L / Bohr L * (- 1))) m))"
  from p ne obtain fd where
    fd: "mapM ?f ?gs = Inr fd" and force: "force = map Some (take (n + 1) fd)"
    by (auto simp: parse_aop_gradient_def Let_def rbind_eq_Inr)
  from i force have ifd: "i < length fd" and "i < n + 1"
    by simp_all
  with force have nth: "force ! i = Some (fd ! i)"
    by simp
  from ifd mapM_length [OF fd] have "i < length ?gs"
    by simp
  from mapM_nth [OF fd this] g
  have "fd ! i = map (map (\<lambda>x. x * Hartree L / Bohr L * (- 1))) g"
    by simp
  with nth show ?thesis
    by simp
qed

text \<open>
  C3.  On a transcript with a force section and gradient sections, the calculator's
  \<open>read_results\<close> takes its forces from the force extractor: the table \<open>v\<close> of the
  first force section times \<open>Hartree / Bohr\<close>, not negated.  The sequence parse takes
  the forces of image \<open>i\<close> from the gradient extractor: the table \<open>g\<close> of the \<open>i\<close>-th
  gradient section times \<open>Hartree / Bohr\<close>, negated.
\<close>

theorem force_gradient_asymmetry:
  fixes L :: "'a ase"
  assumes "groups1 (findall pat_aop_force txt) = fbody # fs"
    and "rows_array L fbody = Inr v"
    and "read_results L txt = Inr res"
    and "groups1 (findall pat_aop_gradient txt) \<noteq> []"
    and "iread_aop L txt = Inr images"
    and "i < length images"
    and "rows_array L (groups1 (findall pat_aop_gradient txt) ! i) = Inr g"
  shows "parse_aop_force L txt = Inr (c_forces res) \<and>
         c_forces res = Some (map (map (\<lambda>x. x * (Hartree L / Bohr L))) v) \<and>
         r_forces (calc_results (images ! i)) =
           Some (map (map (\<lambda>x. - (x * (Hartree L / Bohr L)))) g) \<and>
         (\<exists>force. parse_aop_gradient L txt (length images) = Inr force \<and>
            r_forces (calc_results (images ! i)) = force ! i)"
proof -
  from read_results_forces [OF assms(3)]
  have a: "parse_aop_force L txt = Inr (c_forces res)" .
  with parse_aop_force_first [OF assms(1,2)]
  have b: "c_forces res = Some (map (map (\<lambda>x. x * (Hartree L / Bohr L))) v)"
    by simp
  from assms(5) obtain element position charge magmom dipole energy force where
    p: "parse_aop_gradient L txt (length element) = Inr force" and
    m: "mapM (build_image L element position energy force dipole charge magmom)
          [0..<length element] = Inr images"
    unfolding iread_aop_Inr by blast
  from mapM_length [OF m] have n: "length images = length element"
    by simp
  with assms(6) have "i < length [0..<length element]"
    by simp
  from mapM_nth [OF m this] assms(6) n
  have "build_image L element position energy force dipole charge magmom i = Inr (images ! i)"
    by simp
  then have i: "i < length force" and f: "r_forces (calc_results (images ! i)) = force ! i"
    by (auto simp: build_image_Inr)
  from parse_aop_gradient_nth [OF p assms(4) i assms(7)] f
  have c: "r_forces (calc_results (images ! i)) =
      Some (map (map (\<lambda>x. - (x * (Hartree L / Bohr L)))) g)"
    by simp
  from p n f have "\<exists>force. parse_aop_gradient L txt (length images) = Inr force \<and>
      r_forces (calc_results (images ! i)) = force ! i"
    by auto
  with a b c show ?thesis
    by blast
qed

theorem force_gradient_asymmetry_witness:
  "(\<exists>res. read_results ase0 aop_two_images = Inr res \<and>
      c_forces res = Some [[0, 0, - 0.5 * (Hartree ase0 / Bohr ase0)]]) \<and>
   (\<exists>images. iread_aop ase0 aop_two_images = Inr images \<and>
      r_forces (calc_results (images ! 1)) = Some [[0, 0, - (0.5 * (Hartree ase0 / Bohr ase0))]])"
proof -
  let ?images = "[\<lparr>atoms = [(''H'', [0, 0, 0])],
            calc_results = \<lparr>r_energy = - 0.5 * Hartree ase0,
              r_forces = Some [[0, 0, - 0.25 * (Hartree ase0 / Bohr ase0)]],
              r_dipole = [0, 0, 1 * Bohr ase0], r_charges = None, r_magmoms = None\<rparr>\<rparr>,
          \<lparr>atoms = [(''H'', [0, 0, 0.5])],
            calc_results = \<lparr>r_energy = - 0.75 * Hartree ase0,
              r_forces = Some [[0, 0, - 0.5 * (Hartree ase0 / Bohr ase0)]],
              r_dipole = [0, 0, 2 * Bohr ase0], r_charges = None, r_magmoms = None\<rparr>\<rparr>]
          :: mol image list"
  let ?res = "\<lparr>c_charge = None, c_magmoms = None, c_dipole = [0, 0, 2 * Bohr ase0],
          c_energy = - 0.75 * Hartree ase0,
          c_forces = Some [[0, 0, - 0.5 * (Hartree ase0 / Bohr ase0)]]\<rparr>"
  have f: "groups1 (findall pat_aop_force aop_two_images) = '' 1 0.0 0.0 -0.5'' # []"
    by (rule eval_two_images_sections(1))
  have ne: "groups1 (findall pat_aop_gradient aop_two_images) \<noteq> []"
    by (simp add: eval_two_images_sections(2))
  have g: "rows_array ase0 (groups1 (findall pat_aop_gradient aop_two_images) ! 1) =
      Inr [[0, 0, 0.5]]"
    by (simp add: eval_two_images_sections(2,4))
  have i: "1 < length ?images"
    by simp
  from force_gradient_asymmetry [OF f eval_two_images_sections(3) eval_two_images_results ne
      eval_two_images i g]
  have "c_forces ?res = Some (map (map (\<lambda>x. x * (Hartree ase0 / Bohr ase0))) [[0, 0, - 0.5]])"
    and "r_forces (calc_results (?images ! 1)) =
      Some (map (map (\<lambda>x. - (x * (Hartree ase0 / Bohr ase0)))) [[0, 0, 0.5]])"
    by blast+
  with eval_two_images eval_two_images_results show ?thesis
    by simp
qed


section \<open>Claims on the input reader\<close>

lemma starts_with_iff: "starts_with p s \<longleftrightarrow> (\<exists>b. s = p @ b)"
  by (induction p s rule: starts_with.induct) auto

lemma contains_iff: "contains p s \<longleftrightarrow> (\<exists>a b. s = a @ p @ b)"
proof (induction s)
  case Nil
  show ?case by (auto simp: starts_with_iff)
next
  case (Cons c cs)
  show ?case
  proof
    assume "contains p (c # cs)"
    then consider "starts_with p (c # cs)" | "contains p cs"
      by auto
    then show "\<exists>a b. c # cs = a @ p @ b"
    proof cases
      case 1
      then obtain b where "c # cs = [] @ p @ b"
        by (auto simp: starts_with_iff)
      then show ?thesis by blast
    next
      case 2
      with Cons.IH obtain a b where "cs = a @ p @ b"
        by blast
      then have "c # cs = (c # a) @ p @ b"
        by simp
      then show ?thesis by blast
    qed
  next
    assume "\<exists>a b. c # cs = a @ p @ b"
    then obtain a b where ab: "c # cs = a @ p @ b"
      by blast
    show "contains p (c # cs)"
    proof (cases a)
      case Nil
      with ab have "starts_with p (c # cs)"
        unfolding starts_with_iff by auto
      then show ?thesis
        by simp
    next
      case (Cons d ds)
      with ab have "cs = ds @ p @ b"
        by simp
      with Cons.IH show ?thesis
        by auto
    qed
  qed
qed

lemma parse_xyz_not_one:
  "length (findall pat_xyz txt) \<noteq> 1 \<Longrightarrow> parse_xyz L txt = io_read_xyz L []"
proof -
  assume "length (findall pat_xyz txt) \<noteq> 1"
  then have "length (groups1 (findall pat_xyz txt)) \<noteq> 1"
    by (simp add: groups1_def)
  then show ?thesis
    by (cases "groups1 (findall pat_xyz txt)") (auto simp: parse_xyz_def split: list.splits)
qed

lemma parse_zmat_no_region:
  assumes "length (findall pat_zmat txt) \<noteq> 1" and "length (findall pat_coord txt) \<noteq> 1"
  shows "parse_zmat L txt = parse_zmatrix L None []"
proof -
  from assms have "length (groups1 (findall pat_zmat txt)) \<noteq> 1"
    and "length (groups1 (findall pat_coord txt)) \<noteq> 1"
    by (simp_all add: groups1_def)
  then show ?thesis
    by (cases "groups1 (findall pat_zmat txt)"; cases "groups1 (findall pat_coord txt)")
       (auto simp: parse_zmat_def Let_def split: list.splits)
qed

lemma read_aip_None_iff:
  "read_aip L txt = Inr None \<longleftrightarrow> \<not> contains ''>xyz'' txt \<and> \<not> contains ''>zmat'' txt"
proof -
  have "rbind m (\<lambda>a. Inr (Some a)) \<noteq> Inr None" for m :: "py_error + 'a"
    by (cases m) auto
  then show ?thesis
    by (auto simp: read_aip_def)
qed

lemma eval_aip_samples:
  "length (findall pat_xyz aip_no_end) = 0"
  "read_aip ase0 aip_no_end = Inl StopIteration"
  "length (findall pat_xyz aip_two_regions) = 2"
  "read_aip ase0 aip_two_regions = Inl StopIteration"
  "read_aip ase0 aip_no_geometry = Inr None"
  by code_simp+

lemma eval_aip_zmat_no_end:
  "contains ''>xyz'' aip_zmat_no_end = False"
  "contains ''>zmat'' aip_zmat_no_end = True"
  "length (findall pat_zmat aip_zmat_no_end) = 0"
  "length (findall pat_coord aip_zmat_no_end) = 0"
  by code_simp+

text \<open>
  C2.  \<open>read_aip\<close> returns \<^verbatim>\<open>None\<close> through its own last branch, for a transcript
  that contains neither the text \<^verbatim>\<open>>xyz\<close> nor the text \<^verbatim>\<open>>zmat\<close>, and through
  no other (\<open>read_aip_None_iff\<close>).  Where a region does not occur exactly once,
  \<open>parse_xyz\<close> and \<open>parse_zmat\<close> set \<^verbatim>\<open>None\<close> in place of the region and pass it on to
  the library: an empty stream to the XYZ reader, \<^verbatim>\<open>None\<close> to the internal-coordinate
  resolver.  On a Cartesian region that is not closed, and on two Cartesian regions, the
  reader raises; on an internal-coordinate region that is not closed its result is the
  resolver's on \<^verbatim>\<open>None\<close>, for every library.
\<close>

theorem malformed_region_not_none:
  "read_aip ase0 aip_no_geometry = Inr None \<and>
   length (findall pat_xyz aip_no_end) = 0 \<and>
   read_aip ase0 aip_no_end = Inl StopIteration \<and>
   length (findall pat_xyz aip_two_regions) = 2 \<and>
   read_aip ase0 aip_two_regions = Inl StopIteration \<and>
   length (findall pat_xyz aip_zmat_no_end) = 0 \<and>
   length (findall pat_zmat aip_zmat_no_end) = 0 \<and>
   (\<forall>L :: mol ase.
      read_aip L aip_zmat_no_end = rbind (parse_zmatrix L None []) (\<lambda>a. Inr (Some a)) \<and>
      read_aip L aip_zmat_no_end \<noteq> Inr None)"
proof -
  have x: "length (findall pat_xyz aip_zmat_no_end) = 0"
    by code_simp
  have "read_aip L aip_zmat_no_end = rbind (parse_zmatrix L None []) (\<lambda>a. Inr (Some a)) \<and>
      read_aip L aip_zmat_no_end \<noteq> Inr None" for L :: "mol ase"
  proof -
    from eval_aip_zmat_no_end(3,4) have "parse_zmat L aip_zmat_no_end = parse_zmatrix L None []"
      by (simp add: parse_zmat_no_region)
    with eval_aip_zmat_no_end(1,2)
    have "read_aip L aip_zmat_no_end = rbind (parse_zmatrix L None []) (\<lambda>a. Inr (Some a))"
      by (simp add: read_aip_def)
    moreover have "read_aip L aip_zmat_no_end \<noteq> Inr None"
      unfolding read_aip_None_iff by (simp add: eval_aip_zmat_no_end(2))
    ultimately show ?thesis
      by simp
  qed
  with x eval_aip_samples eval_aip_zmat_no_end(3) show ?thesis
    by blast
qed

text \<open>
  C10.  The reader dispatches on the text \<^verbatim>\<open>>xyz\<close> occurring anywhere in the
  transcript: it then takes the Cartesian path, whatever the regions look like, and its
  result does not depend on the internal-coordinate resolver.
\<close>

theorem read_aip_dispatch_on_substring:
  fixes L :: "'a ase"
  assumes "contains ''>xyz'' txt"
  shows "read_aip L txt = rbind (parse_xyz L txt) (\<lambda>a. Inr (Some a)) \<and>
         read_aip (L\<lparr>parse_zmatrix := z\<rparr>) txt = read_aip L txt"
  using assms by (simp add: read_aip_def parse_xyz_def)

theorem read_aip_dispatch_on_substring_witness:
  "contains ''>xyz'' aip_tag_before_zmat \<and>
   length (findall pat_xyz aip_tag_before_zmat) = 0 \<and>
   groups1 (findall pat_zmat aip_tag_before_zmat) = [''H''] \<and>
   parse_zmat ase0 aip_tag_before_zmat = Inr [] \<and>
   read_aip ase0 aip_tag_before_zmat = Inl StopIteration \<and>
   read_aip (ase0\<lparr>parse_zmatrix := \<lambda>zmat coord. Inl ValueError\<rparr>) aip_tag_before_zmat =
     Inl StopIteration"
proof -
  have c: "contains ''>xyz'' aip_tag_before_zmat"
    by code_simp
  have e: "length (findall pat_xyz aip_tag_before_zmat) = 0"
    "groups1 (findall pat_zmat aip_tag_before_zmat) = [''H'']"
    "parse_zmat ase0 aip_tag_before_zmat = Inr []"
    "parse_xyz ase0 aip_tag_before_zmat = Inl StopIteration"
    by code_simp+
  from read_aip_dispatch_on_substring [OF c, of ase0 "\<lambda>zmat coord. Inl ValueError"] e(4)
  have "read_aip ase0 aip_tag_before_zmat = Inl StopIteration"
    and "read_aip (ase0\<lparr>parse_zmatrix := \<lambda>zmat coord. Inl ValueError\<rparr>) aip_tag_before_zmat =
      Inl StopIteration"
    by simp_all
  with c e show ?thesis
    by simp
qed


section \<open>Claims on the input writer\<close>

lemma blocks_append: "blocks (xs @ ys) = blocks xs @ blocks ys"
  by (induction xs rule: blocks.induct) (simp_all add: Let_def)

lemma kv_fmt_not_scalar: "\<not> is_scalar v \<Longrightarrow> kv_fmt k v = None"
  by (cases v) simp_all

lemma map_filter_scalars:
  "List.map_filter (\<lambda>kv1. kv_fmt (fst kv1) (snd kv1)) (filter (\<lambda>kv1. is_scalar (snd kv1)) items) =
   List.map_filter (\<lambda>kv1. kv_fmt (fst kv1) (snd kv1)) items"
  by (induction items) (auto simp: List.map_filter_simps kv_fmt_not_scalar split: option.splits)

lemma filter_no_scalars:
  "list_all (\<lambda>kv. \<not> is_scalar (snd kv)) items \<Longrightarrow> filter (\<lambda>kv1. is_scalar (snd kv1)) items = []"
  by (induction items) auto

lemma filter_some_scalar:
  "\<not> list_all (\<lambda>kv. \<not> is_scalar (snd kv)) items \<Longrightarrow>
   filter (\<lambda>kv1. is_scalar (snd kv1)) items \<noteq> []"
  by (induction items) auto




subsection \<open>The store\<close>

text \<open>
  Each helper reads and writes one object only: on a store whose last object is \<open>d\<close>
  it returns the text and leaves the object that it returns on the store \<open>[d]\<close>,
  whatever objects come before.
\<close>

lemma write_job_local:
  "\<exists>t d'. \<forall>pre. write_job (pre @ [d]) (length pre) = (t, pre @ [d'])"
proof -
  have "write_job (pre @ [d]) (length pre) =
      (fst (write_job [d] 0), pre @ [hd (snd (write_job [d] 0))])" for pre
    by (cases "map_of d ''npara''")
       (simp_all add: write_job_def sthen_def pop_key_def split: sum.splits)
  then show ?thesis
    by blast
qed

lemma write_keywords_local:
  "\<exists>t d'. \<forall>pre. write_keywords properties (pre @ [d]) (length pre) = (t, pre @ [d'])"
proof -
  have "write_keywords properties (pre @ [d]) (length pre) =
      (fst (write_keywords properties [d] 0),
       pre @ [hd (snd (write_keywords properties [d] 0))])" for pre
    by (cases "map_of d ''keywords''")
       (simp_all add: write_keywords_def sthen_def pop_key_def split: sum.splits)
  then show ?thesis
    by blast
qed

lemma write_xyz_local:
  "\<exists>t d'. \<forall>pre. write_xyz L (pre @ [d]) S (length pre) = (t, pre @ [d'])"
proof -
  have "write_xyz L (pre @ [d]) S (length pre) =
      (fst (write_xyz L [d] S 0), pre @ [hd (snd (write_xyz L [d] S 0))])" for pre
    by (cases "map_of d ''charge''"; cases "map_of (dict_del ''charge'' d) ''mult''";
        cases "map_of d ''mult''"; cases S)
       (simp_all add: write_xyz_def sthen_def pop_key_def Let_def split: sum.splits)
  then show ?thesis
    by blast
qed

lemma write_aip_local:
  "\<exists>t d'. \<forall>h kw0. h ! kw0 = d \<longrightarrow> write_aip L h S properties kw0 = (t, h @ [d'])"
proof -
  define S' where "S' = (case S of Single a \<Rightarrow> Single a
      | Images xs \<Rightarrow> if length xs > 1 then Single (last xs) else Images xs)"
  obtain t1 d1 where 1: "\<And>pre. write_job (pre @ [d]) (length pre) = (t1, pre @ [d1])"
    using write_job_local [of d] by blast
  obtain t2 d2 where
    2: "\<And>pre. write_keywords properties (pre @ [d1]) (length pre) = (t2, pre @ [d2])"
    using write_keywords_local [of properties d1] by blast
  obtain t4 d4 where 4: "\<And>pre. write_xyz L (pre @ [d2]) S' (length pre) = (t4, pre @ [d4])"
    using write_xyz_local [of L d2 S'] by blast
  note defs = write_aip_def deepcopy_def alloc_def sthen_def S'_def [symmetric]
  show ?thesis
  proof (cases t1)
    case (Inl e)
    with 1 have "write_aip L h S properties kw0 = (Inl e, h @ [d1])" if "h ! kw0 = d" for h kw0
      using that by (simp add: defs)
    then show ?thesis
      by blast
  next
    case r1: (Inr x1)
    show ?thesis
    proof (cases t2)
      case (Inl e)
      with r1 1 2 have "write_aip L h S properties kw0 = (Inl e, h @ [d2])"
        if "h ! kw0 = d" for h kw0
        using that by (simp add: defs)
      then show ?thesis
        by blast
    next
      case r2: (Inr x2)
      show ?thesis
      proof (cases t4)
        case (Inl e)
        with r1 r2 1 2 4 have "write_aip L h S properties kw0 = (Inl e, h @ [d4])"
          if "h ! kw0 = d" for h kw0
          using that by (simp add: defs)
        then show ?thesis
          by blast
      next
        case (Inr x4)
        with r1 r2 1 2 4 have "write_aip L h S properties kw0 =
            (Inr (join [nl] (filter (\<lambda>t. length t > 0) [x1, x2, write_dict d2, x4])), h @ [d4])"
          if "h ! kw0 = d" for h kw0
          using that by (simp add: defs)
        then show ?thesis
          by blast
      qed
    qed
  qed
qed

lemma write_input_local:
  "\<exists>t d'. \<forall>h p. h ! p = d \<longrightarrow> write_input L h S properties p = (t, h @ [d, d'])"
proof -
  obtain t d' where
    a: "\<And>h kw0. h ! kw0 = d \<Longrightarrow> write_aip L h S properties kw0 = (t, h @ [d'])"
    using write_aip_local [of d L S properties] by blast
  have "write_input L h S properties p = (t, h @ [d, d'])" if "h ! p = d" for h p
    using that a [of "h @ [d]" "length h"] by (simp add: write_input_def alloc_def)
  then show ?thesis
    by blast
qed

lemma write_job_removes_key:
  "write_job [[(''npara'', VInt 4), (''mult'', VInt 1)]] 0 = (Inr ''% npara 4'', [[(''mult'', VInt 1)]])"
  by code_simp

text \<open>
  C7.  The helpers remove the keys they consume from the object they are given
  (\<open>write_job_removes_key\<close>); \<open>write_aip\<close> gives them a copy.  After the writer has
  returned, with a text or with an exception, every object that was in the store before
  the call is what it was: the keyword mapping of \<open>write_aip\<close>, and the parameter
  mapping of the calculator that \<open>write_input\<close> passes on.
\<close>

theorem writer_leaves_parameters_unchanged:
  fixes L :: "'a ase"
  shows "take (length h) (snd (write_aip L h S properties kw)) = h \<and>
         take (length h) (snd (write_input L h S properties p)) = h"
proof -
  obtain t d' where "write_aip L h S properties kw = (t, h @ [d'])"
    using write_aip_local [of "h ! kw" L S properties] by blast
  moreover obtain u e' where "write_input L h S properties p = (u, h @ [h ! p, e'])"
    using write_input_local [of "h ! p" L S properties] by blast
  ultimately show ?thesis
    by simp
qed

lemma write_dict_one_block:
  "write_dict [(b, VDict items)] =
     (if list_all (\<lambda>kv. \<not> is_scalar (snd kv)) items then []
      else join [nl] [''>'' @ b,
             join [nl] (List.map_filter (\<lambda>kv. kv_fmt (fst kv) (snd kv)) items), ''end''])"
proof (cases "list_all (\<lambda>kv. \<not> is_scalar (snd kv)) items")
  case True
  from filter_no_scalars [OF this] True show ?thesis
    by (simp add: write_dict_def)
next
  case False
  from filter_some_scalar [OF this] False show ?thesis
    by (simp add: write_dict_def block_lines_def map_filter_scalars)
qed

text \<open>
  C9.  The text that the writer produces is a function of the structure and of the
  items of the parameter mapping: a second call with the same arguments, made on the
  store that the first call has left, produces the same text.  The lines of a block
  stand in the order of the items of its mapping, and the blocks in the order of the
  parameters.
\<close>

theorem writer_deterministic:
  fixes L :: "'a ase"
  assumes "p < length h"
  shows "fst (write_input L (snd (write_input L h S properties p)) S properties p) =
           fst (write_input L h S properties p) \<and>
         write_dict [(b, VDict items)] =
           (if list_all (\<lambda>kv. \<not> is_scalar (snd kv)) items then []
            else join [nl] [''>'' @ b,
                   join [nl] (List.map_filter (\<lambda>kv. kv_fmt (fst kv) (snd kv)) items), ''end'']) \<and>
         blocks (kw1 @ kw2) = blocks kw1 @ blocks kw2"
proof -
  obtain t d' where
    a: "\<And>h' p'. h' ! p' = h ! p \<Longrightarrow> write_input L h' S properties p' = (t, h' @ [h ! p, d'])"
    using write_input_local [of "h ! p" L S properties] by blast
  from a [of h p] have 1: "write_input L h S properties p = (t, h @ [h ! p, d'])"
    by simp
  from assms have "(h @ [h ! p, d']) ! p = h ! p"
    by (simp add: nth_append)
  from a [OF this] 1
  have "fst (write_input L (snd (write_input L h S properties p)) S properties p) =
      fst (write_input L h S properties p)"
    by simp
  with write_dict_one_block blocks_append show ?thesis
    by blast
qed


lemma eval_writer:
  "fst (write_input ase0 [params_block] (Single h_atom) () 0) = Inr aip_block"
  "fst (write_input ase0 [params_anion] (Single h_atom) () 0) = Inr aip_anion"
  "fst (write_input (ase0\<lparr>initial_charges_sum := \<lambda>a. - 1\<rparr>) [[]] (Single h_atom) () 0) = Inr aip_anion"
  "fst (write_input ase0 [params_neutral] (Single h_atom) () 0) = Inr aip_neutral"
  by code_simp+

lemma eval_read_back:
  "read_aip ase0 aip_anion = Inl StopIteration"
  "read_aip ase0 aip_neutral = Inr (Some h_atom)"
  "length (findall pat_xyz aip_anion) = 0"
  by code_simp+

theorem writer_deterministic_witness:
  "fst (write_input ase0 [params_block] (Single h_atom) () 0) = Inr aip_block \<and>
   fst (write_input ase0 (snd (write_input ase0 [params_block] (Single h_atom) () 0))
          (Single h_atom) () 0) = Inr aip_block"
proof -
  have "0 < length [params_block]"
    by simp
  from writer_deterministic [OF this, of ase0 "Single h_atom" "()"] eval_writer(1)
  show ?thesis
    by simp
qed

text \<open>
  C6.  The writer renders the net charge with \<^verbatim>\<open>%d\<close>, so a negative charge is
  written with its sign; the pattern of the reader wants digits only
  (\<^verbatim>\<open>>xyz\\s+\\d+\\s+\\d+\<close>).  The transcript written for an anion, with the charge
  given as a parameter or taken from the structure, holds no region that the reader
  recognises, and reading it back raises.  The same structure with charge \<open>0\<close> is read
  back.
\<close>

theorem anion_not_read_back:
  "fst (write_input ase0 [params_anion] (Single h_atom) () 0) = Inr aip_anion \<and>
   fst (write_input (ase0\<lparr>initial_charges_sum := \<lambda>a. - 1\<rparr>) [[]] (Single h_atom) () 0) =
     Inr aip_anion \<and>
   length (findall pat_xyz aip_anion) = 0 \<and>
   read_aip ase0 aip_anion = Inl StopIteration \<and>
   fst (write_input ase0 [params_neutral] (Single h_atom) () 0) = Inr aip_neutral \<and>
   read_aip ase0 aip_neutral = Inr (Some h_atom)"
  using eval_writer eval_read_back by simp


end
